theory Spec2Isabelle
  imports Complex_Main
begin

section \<open>Python values and errors\<close>

text \<open>
  The library \<^verbatim>\<open>lib/layer_utils.py\<close> is Python 2 code on numpy (it iterates
  dictionaries with \<^verbatim>\<open>iteritems\<close>). Every exception the modelled operations can
  raise is a value of \<open>error\<close>; an operation returns \<open>error + 'a\<close>, with \<open>Inl\<close> for
  the exception. \<open>ValueError\<close> carries its message.
\<close>

datatype error =
    ValueError string
  | AttributeError
  | KeyError string
  | IndexError
  | TypeError
  | AssertionError

section \<open>The network container \<^verbatim>\<open>RNN\<close>\<close>

text \<open>
  A Python dictionary from names to tensors is a map; a stored value may be Python's
  \<^verbatim>\<open>None\<close> (the inner \<open>option\<close>). The keys of one dictionary are distinct, so a loop
  over its items that stores every item into another dictionary is an override of
  that dictionary, whatever the iteration order.

  The container is duck-typed: a layer is any object with a \<^verbatim>\<open>name\<close>, a \<^verbatim>\<open>params\<close>
  and a \<^verbatim>\<open>grads\<close> attribute. \<^verbatim>\<open>load\<close> asks \<^verbatim>\<open>hasattr(layer, "params")\<close>, so the
  attribute itself may be missing: \<open>params l = None\<close>. The container never looks
  inside a tensor, so the model is polymorphic in the tensor type \<open>'v\<close>. The container's
  own dictionaries \<^verbatim>\<open>self.params\<close> and \<^verbatim>\<open>self.grads\<close> are the fields \<open>net_params\<close> and
  \<open>net_grads\<close>.
\<close>

type_synonym 'v pdict = "string \<rightharpoonup> 'v option"

record 'v layer =
  name :: string
  params :: "'v pdict option"
  grads :: "'v pdict"

record 'v RNN =
  net_params :: "'v pdict"
  net_grads :: "'v pdict"
  layers :: "'v layer list"
  paramName2Indices :: "string \<rightharpoonup> nat"
  layer_names :: "string \<rightharpoonup> bool"

text \<open>
  Lines 34-38: \<^verbatim>\<open>for n, v in layer.params.items(): if v is None: continue;
  self.params[n] = v; self.paramName2Indices[n] = layer_cnt\<close>.
\<close>

definition register_params :: "'v pdict \<Rightarrow> nat \<Rightarrow> 'v RNN \<Rightarrow> 'v RNN" where
  "register_params lp layer_cnt net =
     net\<lparr>net_params := (\<lambda>n. case lp n of Some (Some v) \<Rightarrow> Some (Some v) | _ \<Rightarrow> net_params net n),
         paramName2Indices :=
           (\<lambda>n. case lp n of Some (Some v) \<Rightarrow> Some layer_cnt | _ \<Rightarrow> paramName2Indices net n)\<rparr>"

text \<open>Lines 39-40: every gradient entry is copied, \<^verbatim>\<open>None\<close> or not.\<close>

definition register_grads :: "'v pdict \<Rightarrow> 'v RNN \<Rightarrow> 'v RNN" where
  "register_grads lg net = net\<lparr>net_grads := net_grads net ++ lg\<rparr>"

definition existing_name :: "string \<Rightarrow> error" where
  "existing_name n = ValueError (''Existing name '' @ n @ ''!'')"

text \<open>
  The body of the loop of \<^verbatim>\<open>__init__\<close> over \<^verbatim>\<open>args\<close> (lines 34-45) for one layer. A
  layer without \<^verbatim>\<open>params\<close> raises \<^verbatim>\<open>AttributeError\<close> at line 34. The duplicate check
  of line 41 comes after the layer's parameters and gradients were registered; the
  exception leaves the constructor, so the half-built object is never seen.
\<close>

definition init_body :: "'v layer \<Rightarrow> nat \<Rightarrow> 'v RNN \<Rightarrow> error + 'v RNN" where
  "init_body l layer_cnt net =
     (case params l of
        None \<Rightarrow> Inl AttributeError
      | Some lp \<Rightarrow>
          (let net1 = register_grads (grads l) (register_params lp layer_cnt net)
           in if layer_names net1 (name l) \<noteq> None then Inl (existing_name (name l))
              else Inr (net1\<lparr>layer_names := (layer_names net1)(name l \<mapsto> True),
                             layers := layers net1 @ [l]\<rparr>)))"

fun init_loop :: "'v layer list \<Rightarrow> nat \<Rightarrow> 'v RNN \<Rightarrow> error + 'v RNN" where
  "init_loop [] layer_cnt net = Inr net"
| "init_loop (l # ls) layer_cnt net =
     (case init_body l layer_cnt net of
        Inl e \<Rightarrow> Inl e
      | Inr net' \<Rightarrow> init_loop ls (Suc layer_cnt) net')"

definition empty_RNN :: "'v RNN" where
  "empty_RNN = \<lparr>net_params = Map.empty, net_grads = Map.empty, layers = [],
                paramName2Indices = Map.empty, layer_names = Map.empty\<rparr>"

definition RNN_init :: "'v layer list \<Rightarrow> error + 'v RNN" where
  "RNN_init args = init_loop args 0 empty_RNN"

text \<open>Lines 48-51. \<^verbatim>\<open>val\<close> may be \<^verbatim>\<open>None\<close>. The registry \<open>net_params\<close> is not written.\<close>

definition assign :: "'v RNN \<Rightarrow> string \<Rightarrow> 'v option \<Rightarrow> error + 'v RNN" where
  "assign net n val =
     (case paramName2Indices net n of
        None \<Rightarrow> Inl (KeyError n)
      | Some layer_cnt \<Rightarrow>
          if layer_cnt < length (layers net) then
            (case params (layers net ! layer_cnt) of
               None \<Rightarrow> Inl AttributeError
             | Some ps \<Rightarrow>
                 Inr (net\<lparr>layers := (layers net)
                        [layer_cnt := (layers net ! layer_cnt)\<lparr>params := Some (ps(n \<mapsto> val))\<rparr>]\<rparr>))
          else Inl IndexError)"

text \<open>Lines 58-60: a lookup in the container's own dictionary.\<close>

definition get_params :: "'v RNN \<Rightarrow> string \<Rightarrow> error + 'v option" where
  "get_params net n = (case net_params net n of None \<Rightarrow> Inl (KeyError n) | Some v \<Rightarrow> Inr v)"

text \<open>Lines 66-72: every item of every layer, in layer order, \<^verbatim>\<open>None\<close> included.\<close>

fun gather_loop :: "'v layer list \<Rightarrow> 'v pdict \<Rightarrow> error + 'v pdict" where
  "gather_loop [] ps = Inr ps"
| "gather_loop (l # ls) ps =
     (case params l of None \<Rightarrow> Inl AttributeError | Some lp \<Rightarrow> gather_loop ls (ps ++ lp))"

definition gather_params :: "'v RNN \<Rightarrow> error + 'v RNN" where
  "gather_params net =
     (case gather_loop (layers net) (net_params net) of
        Inl e \<Rightarrow> Inl e
      | Inr ps \<Rightarrow> Inr (net\<lparr>net_params := ps\<rparr>))"

text \<open>
  Lines 82-92. \<^verbatim>\<open>pretrained[n].copy()\<close> is a new array with the same contents; a
  pretrained tensor is an array (never \<^verbatim>\<open>None\<close>). The loop stores only under keys the
  layer already has, so the set of keys does not change while it is iterated. The
  \<^verbatim>\<open>print\<close> of line 92 writes to standard output only.
\<close>

definition load_layer :: "(string \<rightharpoonup> 'v) \<Rightarrow> 'v layer \<Rightarrow> 'v layer" where
  "load_layer pretrained l =
     (case params l of
        None \<Rightarrow> l
      | Some lp \<Rightarrow>
          l\<lparr>params := Some (\<lambda>n. case lp n of
                                  None \<Rightarrow> None
                                | Some v \<Rightarrow> (case pretrained n of
                                              None \<Rightarrow> Some v
                                            | Some w \<Rightarrow> Some (Some w)))\<rparr>)"

definition load :: "'v RNN \<Rightarrow> (string \<rightharpoonup> 'v) \<Rightarrow> 'v RNN" where
  "load net pretrained = net\<lparr>layers := map (load_layer pretrained) (layers net)\<rparr>"

text \<open>
  What it means for the layer at index \<open>i\<close> to hold parameter \<open>n\<close> with a tensor
  (not \<^verbatim>\<open>None\<close>): these are the entries the constructor registers.
\<close>

definition holds_tensor :: "'v layer \<Rightarrow> string \<Rightarrow> bool" where
  "holds_tensor l n = (case params l of None \<Rightarrow> False
                       | Some lp \<Rightarrow> (case lp n of Some (Some v) \<Rightarrow> True | _ \<Rightarrow> False))"

definition has_key :: "'v layer \<Rightarrow> string \<Rightarrow> bool" where
  "has_key l n = (case params l of None \<Rightarrow> False | Some lp \<Rightarrow> lp n \<noteq> None)"

text \<open>
  The index the constructor's loop leaves under a name: the position of the last layer
  that holds a tensor under it, counted from \<open>c\<close> (a specification function, used
  to state what \<open>init_loop\<close> computes).
\<close>

fun last_holder :: "'v layer list \<Rightarrow> nat \<Rightarrow> string \<Rightarrow> nat option \<Rightarrow> nat option" where
  "last_holder [] c n acc = acc"
| "last_holder (l # ls) c n acc = last_holder ls (Suc c) n (if holds_tensor l n then Some c else acc)"

text \<open>
  Concrete layers for checking the container on inputs: the parameters of a word
  embedding named \<^verbatim>\<open>we\<close> and of a temporal fully-connected layer named \<^verbatim>\<open>t_fc\<close>, as
  their constructors lay them out (tensors in \<open>params\<close>, \<^verbatim>\<open>None\<close> in \<open>grads\<close>), and a
  duck-typed layer whose only parameter is \<^verbatim>\<open>None\<close>.
\<close>

datatype ndarray = Vec "real list" | Mat "real list list"

definition we_layer :: "ndarray layer" where
  "we_layer = \<lparr>name = ''we'',
                params = Some [''we_w'' \<mapsto> Some (Mat [[1, 2], [3, 4]])],
                grads = [''we_w'' \<mapsto> None]\<rparr>"

definition fc_layer :: "ndarray layer" where
  "fc_layer = \<lparr>name = ''t_fc'',
                params = Some [''t_fc_w'' \<mapsto> Some (Mat [[1], [2]]), ''t_fc_b'' \<mapsto> Some (Vec [0])],
                grads = [''t_fc_w'' \<mapsto> None, ''t_fc_b'' \<mapsto> None]\<rparr>"

definition absent_layer :: "ndarray layer" where
  "absent_layer = \<lparr>name = ''l'', params = Some [''l_w'' \<mapsto> None], grads = Map.empty\<rparr>"

definition bare_layer :: "ndarray layer" where
  "bare_layer = \<lparr>name = ''loss'', params = None, grads = Map.empty\<rparr>"

section \<open>Arrays\<close>

text \<open>
  A numpy array of floats is a nested list of reals, outermost axis first: arithmetic
  is exact (no rounding, no overflow, no \<^verbatim>\<open>nan\<close>), which is the reading under which
  the gradient formulas of the library are stated. An axis of length zero in front of
  other axes cannot be written as a nested list (numpy keeps the lengths of the later
  axes), so the theorems below are about arrays whose leading axes are not empty; the
  shape predicates say which nested lists are arrays of a given shape.
\<close>

type_synonym vec = "real list"
type_synonym mat = "real list list"
type_synonym tensor3 = "real list list list"

definition dim1 :: "'a list list \<Rightarrow> nat" where
  "dim1 x = (case x of [] \<Rightarrow> 0 | r # _ \<Rightarrow> length r)"

definition dim2 :: "'a list list list \<Rightarrow> nat" where
  "dim2 x = (case x of [] \<Rightarrow> 0 | m # _ \<Rightarrow> dim1 m)"

definition is_mat :: "nat \<Rightarrow> nat \<Rightarrow> 'a list list \<Rightarrow> bool" where
  "is_mat n m A = (length A = n \<and> list_all (\<lambda>r. length r = m) A)"

definition is_tensor3 :: "nat \<Rightarrow> nat \<Rightarrow> nat \<Rightarrow> 'a list list list \<Rightarrow> bool" where
  "is_tensor3 n t d X = (length X = n \<and> list_all (is_mat t d) X)"

text \<open>
  Python indexing of an axis of length \<open>n\<close> by an integer: \<open>-n \<le> j < n\<close> is in bounds,
  a negative index counts from the end; anything else raises \<^verbatim>\<open>IndexError\<close>.
\<close>

definition in_bounds :: "nat \<Rightarrow> int \<Rightarrow> bool" where
  "in_bounds n j = (- int n \<le> j \<and> j < int n)"

definition py_idx :: "nat \<Rightarrow> int \<Rightarrow> nat" where
  "py_idx n j = nat (if j < 0 then j + int n else j)"

text \<open>
  Reshaping keeps the row-major order of the elements. \<open>reshape_rows N T rows\<close> groups a
  list of \<open>N * T\<close> rows into \<open>N\<close> blocks of \<open>T\<close> rows (\<^verbatim>\<open>a.reshape(N, T, -1)\<close> for a
  matrix \<open>a\<close>; on a flat list of numbers, \<^verbatim>\<open>reshape(N, T)\<close>); \<open>flat3\<close> is the flat list of
  the elements of a rank 3 array.
\<close>

definition reshape_rows :: "nat \<Rightarrow> nat \<Rightarrow> 'a list \<Rightarrow> 'a list list" where
  "reshape_rows N T rows = map (\<lambda>i. take T (drop (i * T) rows)) [0..<N]"


section \<open>The loss unit \<^verbatim>\<open>temporal_softmax_loss\<close>\<close>

text \<open>
  The unit's attributes. \<open>dLoss\<close> and \<open>label\<close> are \<^verbatim>\<open>None\<close> after \<^verbatim>\<open>__init__\<close>; the
  attribute \<^verbatim>\<open>mask\<close> does not exist until \<^verbatim>\<open>forward\<close> sets it (line 612), which is
  \<open>mask' = None\<close> here.
\<close>

record temporal_softmax_loss =
  dim_average :: bool
  dLoss :: "mat option"
  label :: "int list list option"
  mask' :: "mat option"

definition temporal_softmax_loss_init :: "bool \<Rightarrow> temporal_softmax_loss" where
  "temporal_softmax_loss_init da = \<lparr>dim_average = da, dLoss = None, label = None, mask' = None\<rparr>"

text \<open>
  Lines 604-605 on one row of \<^verbatim>\<open>feat_flat\<close>: subtract the row maximum, exponentiate,
  divide by the row sum.
\<close>

definition softmax_row :: "vec \<Rightarrow> vec" where
  "softmax_row r =
     (let e = map (\<lambda>x. exp (x - Max (set r))) r in map (\<lambda>p. p / sum_list e) e)"

definition no_forward :: error where
  "no_forward = ValueError ''No forward function called before for this module!''"

definition cannot_reshape :: error where
  "cannot_reshape = ValueError ''cannot reshape array''"

definition empty_max :: error where
  "empty_max = ValueError ''zero-size array to reduction operation maximum which has no identity''"

text \<open>
  \<^verbatim>\<open>forward\<close> (lines 596-613). The three reshapes flatten batch and time; those of
  \<open>label\<close> and \<open>mask\<close> raise unless the array has \<open>N * T\<close> elements. \<^verbatim>\<open>np.max\<close> raises on
  rows of length zero, and the fancy index \<^verbatim>\<open>probs[np.arange(N * T), label_flat]\<close>
  raises \<^verbatim>\<open>IndexError\<close> on a label out of bounds. With \<open>N = 0\<close> numpy's division gives
  \<^verbatim>\<open>nan\<close>, which the model does not have: the theorems ask for \<open>0 < N\<close>.
\<close>

definition temporal_softmax_loss_forward ::
  "temporal_softmax_loss \<Rightarrow> tensor3 \<Rightarrow> int list list \<Rightarrow> mat \<Rightarrow> error + real \<times> temporal_softmax_loss"
where
  "temporal_softmax_loss_forward self feat lbl msk =
     (let N = length feat; T = dim1 feat; V = dim2 feat;
          feat_flat = concat feat;
          label_flat = concat lbl;
          mask_flat = concat msk
      in if length label_flat \<noteq> N * T \<or> length mask_flat \<noteq> N * T then Inl cannot_reshape
         else if list_ex (\<lambda>r. r = []) feat_flat then Inl empty_max
         else if \<not> list_all (in_bounds V) label_flat then Inl IndexError
         else
           (let probs = map softmax_row feat_flat;
                picked = map2 (\<lambda>p j. p ! py_idx V j) probs label_flat;
                loss = - sum_list (map2 (\<lambda>m p. m * ln p) mask_flat picked);
                loss = (if dim_average self then loss / real N else loss)
            in Inr (loss, self\<lparr>dLoss := Some probs, label := Some lbl, mask' := Some msk\<rparr>)))"

text \<open>
  \<^verbatim>\<open>backward\<close> (lines 615-625). Line 616 reads \<^verbatim>\<open>self.label.shape\<close> before line 618
  looks at \<^verbatim>\<open>dLoss\<close>. \<^verbatim>\<open>dLoss\<close> is the stored array itself, changed in place and
  stored again; the returned array is a reshaped view of it. The fancy index of line
  620 pairs row \<open>k\<close> with column \<open>label_flat[k]\<close>: the pairs are distinct, so each
  addressed entry is decremented once. \<^verbatim>\<open>reshape(N, T, -1)\<close> cannot infer the last axis
  of an array without elements.
\<close>

definition subtract_at_labels :: "mat \<Rightarrow> int list \<Rightarrow> mat" where
  "subtract_at_labels d label_flat =
     map2 (\<lambda>row j. row[py_idx (dim1 d) j := row ! py_idx (dim1 d) j - 1.0]) d label_flat"

definition divide_by :: "nat \<Rightarrow> mat \<Rightarrow> mat" where
  "divide_by N d = map (map (\<lambda>x. x / real N)) d"

definition times_mask :: "mat \<Rightarrow> vec \<Rightarrow> mat" where
  "times_mask d mask_flat = map2 (\<lambda>row m. map (\<lambda>x. x * m) row) d mask_flat"

text \<open>Lines 620-623: what one call of \<^verbatim>\<open>backward\<close> does to the stored array.\<close>

definition dLoss_step :: "bool \<Rightarrow> nat \<Rightarrow> int list \<Rightarrow> vec \<Rightarrow> mat \<Rightarrow> mat" where
  "dLoss_step da N label_flat mask_flat d =
     (let d1 = subtract_at_labels d label_flat;
          d2 = (if da then divide_by N d1 else d1)
      in times_mask d2 mask_flat)"

definition temporal_softmax_loss_backward ::
  "temporal_softmax_loss \<Rightarrow> error + tensor3 \<times> temporal_softmax_loss"
where
  "temporal_softmax_loss_backward self =
     (case label self of
        None \<Rightarrow> Inl AttributeError
      | Some lbl \<Rightarrow>
          (let N = length lbl; T = dim1 lbl in
           case dLoss self of
             None \<Rightarrow> Inl no_forward
           | Some d \<Rightarrow>
               (let label_flat = concat lbl in
                if length label_flat \<noteq> N * T then Inl cannot_reshape
                else if length d \<noteq> N * T then Inl IndexError
                else if \<not> list_all (in_bounds (dim1 d)) label_flat then Inl IndexError
                else
                  (case mask' self of
                     None \<Rightarrow> Inl AttributeError
                   | Some msk \<Rightarrow>
                       (let mask_flat = concat msk in
                        if length mask_flat \<noteq> N * T then Inl cannot_reshape
                        else
                          (let d3 = dLoss_step (dim_average self) N label_flat mask_flat d
                           in if N * T = 0 then Inl cannot_reshape
                              else Inr (reshape_rows N T d3, self\<lparr>dLoss := Some d3\<rparr>)))))))"

text \<open>
  The numerically stable softmax probability of class \<open>j\<close> for a row of scores, as the
  specification words it (used to state what \<open>forward\<close> computes).
\<close>

definition stable_softmax_prob :: "vec \<Rightarrow> nat \<Rightarrow> real" where
  "stable_softmax_prob r j =
     exp (r ! j - Max (set r)) / (\<Sum>i<length r. exp (r ! i - Max (set r)))"

section \<open>Matrix operations of numpy\<close>

text \<open>
  The operations the layers use, on arrays of the shapes their docstrings give.
  numpy raises \<^verbatim>\<open>ValueError\<close> when the shapes of the operands of \<^verbatim>\<open>dot\<close> or of an
  elementwise operation do not fit (or broadcasts them); each theorem states the shapes
  it is about, and says nothing about other arguments.
\<close>

text \<open>\<^verbatim>\<open>A.T\<close> for a matrix.\<close>

definition mT :: "mat \<Rightarrow> mat" where
  "mT A = map (\<lambda>j. map (\<lambda>r. r ! j) A) [0..<dim1 A]"

text \<open>\<^verbatim>\<open>A.dot(B)\<close>, \<^verbatim>\<open>np.dot(A, B)\<close> for matrices: rows of \<open>A\<close> against columns of \<open>B\<close>.\<close>

definition dot :: "mat \<Rightarrow> mat \<Rightarrow> mat" where
  "dot A B = map (\<lambda>r. map (\<lambda>c. sum_list (map2 (*) r c)) (mT B)) A"

text \<open>Elementwise \<^verbatim>\<open>A + B\<close> and \<^verbatim>\<open>A * B\<close> of matrices of one shape; \<^verbatim>\<open>u + v\<close> of vectors.\<close>

definition vec_add :: "vec \<Rightarrow> vec \<Rightarrow> vec" where
  "vec_add u v = map2 (+) u v"

definition mat_add :: "mat \<Rightarrow> mat \<Rightarrow> mat" where
  "mat_add A B = map2 vec_add A B"

definition mat_mul :: "mat \<Rightarrow> mat \<Rightarrow> mat" where
  "mat_mul A B = map2 (map2 (*)) A B"

text \<open>\<^verbatim>\<open>A + b\<close> for a matrix and a vector: the vector is added to every row.\<close>

definition add_row_vec :: "mat \<Rightarrow> vec \<Rightarrow> mat" where
  "add_row_vec A b = map (\<lambda>r. vec_add r b) A"

text \<open>\<^verbatim>\<open>np.sum(A, axis=0)\<close>: the sums of the columns.\<close>

definition col_sum :: "mat \<Rightarrow> vec" where
  "col_sum A = map sum_list (mT A)"

text \<open>\<^verbatim>\<open>np.zeros((n, m))\<close>, \<^verbatim>\<open>np.zeros((n,))\<close> and \<^verbatim>\<open>np.zeros((n, t, d))\<close>.\<close>

definition zeros :: "nat \<Rightarrow> nat \<Rightarrow> mat" where
  "zeros n m = replicate n (replicate m 0)"

definition zeros1 :: "nat \<Rightarrow> vec" where
  "zeros1 n = replicate n 0"

definition zeros3 :: "nat \<Rightarrow> nat \<Rightarrow> nat \<Rightarrow> tensor3" where
  "zeros3 n t d = replicate n (zeros t d)"

text \<open>
  The slices \<^verbatim>\<open>x[:, i, :]\<close> (read) and \<^verbatim>\<open>x[:, i, :] = v\<close> (write) of an array of shape
  \<open>(N, T, D)\<close>, and the column block \<^verbatim>\<open>A[:, a:b]\<close> of a matrix (a Python slice is clipped
  to the axis, as \<open>take\<close> and \<open>drop\<close> are).
\<close>

definition slice_time :: "tensor3 \<Rightarrow> nat \<Rightarrow> mat" where
  "slice_time x i = map (\<lambda>b. b ! i) x"

definition set_time :: "tensor3 \<Rightarrow> nat \<Rightarrow> mat \<Rightarrow> tensor3" where
  "set_time x i v = map2 (\<lambda>b r. b[i := r]) x v"

definition cols :: "nat \<Rightarrow> nat \<Rightarrow> mat \<Rightarrow> mat" where
  "cols a b A = map (\<lambda>r. take (b - a) (drop a r)) A"

text \<open>
  The helper \<^verbatim>\<open>sigmoid\<close> (lines 3-14) on one element: \<open>z\<close> is \<open>exp (-x)\<close> where
  \<open>x \<ge> 0\<close> and \<open>exp x\<close> elsewhere, \<open>top\<close> is 1 where \<open>x \<ge> 0\<close> and \<open>z\<close> elsewhere.
\<close>

definition sigmoid :: "real \<Rightarrow> real" where
  "sigmoid x =
     (let z = (if x \<ge> 0 then exp (- x) else exp x);
          top = (if x \<ge> 0 then 1 else z)
      in top / (1 + z))"

section \<open>The layers\<close>

text \<open>
  A layer object is a record of the attributes its methods read or write. The entries
  of \<^verbatim>\<open>self.params\<close> and \<^verbatim>\<open>self.grads\<close> are fields of their own (a gradient is \<^verbatim>\<open>None\<close>
  until \<^verbatim>\<open>backward\<close> stores it); the names, which only the container uses, are left
  out. \<^verbatim>\<open>meta\<close> is \<^verbatim>\<open>None\<close> after construction.
\<close>

subsection \<open>\<^verbatim>\<open>temporal_fc\<close>\<close>




subsection \<open>\<^verbatim>\<open>word_embedding\<close>\<close>

record word_embedding =
  we_w :: mat
  we_grad_w :: "mat option"
  we_meta :: "(tensor3 \<times> int list list) option"

text \<open>
  \<^verbatim>\<open>forward\<close> (lines 478-497): the row gather \<^verbatim>\<open>W[x, :]\<close>, which raises \<^verbatim>\<open>IndexError\<close>
  on an index out of bounds for the table.
\<close>

definition word_embedding_forward ::
  "word_embedding \<Rightarrow> int list list \<Rightarrow> error + tensor3 \<times> word_embedding"
where
  "word_embedding_forward self x =
     (let W = we_w self in
      if \<not> list_all (list_all (in_bounds (length W))) x then Inl IndexError
      else
        (let out = map (map (\<lambda>j. W ! py_idx (length W) j)) x
         in Inr (out, self\<lparr>we_meta := Some (out, x)\<rparr>)))"

text \<open>
  \<^verbatim>\<open>np.add.at(g, x, dout)\<close> is unbuffered: it adds, one index after the other, the row of
  \<open>dout\<close> at a position to the row of \<open>g\<close> that the index at that position names.
\<close>

fun add_at :: "mat \<Rightarrow> (int \<times> vec) list \<Rightarrow> error + mat" where
  "add_at g [] = Inr g"
| "add_at g ((j, row) # rest) =
     (if in_bounds (length g) j
      then add_at (g[py_idx (length g) j := vec_add (g ! py_idx (length g) j) row]) rest
      else Inl IndexError)"

text \<open>
  \<^verbatim>\<open>backward\<close> (lines 499-513); it returns nothing. The positions of \<open>x\<close> and the rows
  of \<open>dout\<close> are paired in row-major order.
\<close>

definition word_embedding_backward :: "word_embedding \<Rightarrow> tensor3 \<Rightarrow> error + word_embedding" where
  "word_embedding_backward self dout =
     (case we_meta self of
        None \<Rightarrow> Inl TypeError
      | Some (out, x) \<Rightarrow>
          (case add_at (zeros (length (we_w self)) (dim1 (we_w self)))
                  (zip (concat x) (concat dout)) of
             Inl e \<Rightarrow> Inl e
           | Inr g \<Rightarrow> Inr (self\<lparr>we_grad_w := Some g\<rparr>)))"

subsection \<open>\<^verbatim>\<open>LSTM\<close>\<close>

record LSTM =
  lstm_wx :: mat
  lstm_wh :: mat
  lstm_b :: vec
  h_dim :: nat

type_synonym lstm_meta = "mat \<times> mat \<times> mat \<times> mat \<times> mat \<times> mat \<times> mat \<times> mat \<times> mat"

text \<open>
  \<^verbatim>\<open>step_forward\<close> (lines 247-296). It reads the parameters and \<^verbatim>\<open>h_dim\<close> and writes no
  attribute; \<^verbatim>\<open>meta\<close> is the list of nine arrays of line 294.
\<close>

definition LSTM_step_forward :: "LSTM \<Rightarrow> mat \<Rightarrow> mat \<Rightarrow> mat \<Rightarrow> mat \<times> mat \<times> lstm_meta" where
  "LSTM_step_forward self x prev_h prev_c =
     (let A = add_row_vec (mat_add (dot x (lstm_wx self)) (dot prev_h (lstm_wh self)))
                (lstm_b self);
          H = h_dim self;
          a_i = cols 0 H A;
          i_t = map (map sigmoid) a_i;
          a_f = cols H (2 * H) A;
          f_t = map (map sigmoid) a_f;
          a_o = cols (2 * H) (3 * H) A;
          o_t = map (map sigmoid) a_o;
          a_g = cols (3 * H) (4 * H) A;
          g_t = map (map tanh) a_g;
          c_t = mat_add (mat_mul f_t prev_c) (mat_mul i_t g_t);
          h_t = mat_mul o_t (map (map tanh) c_t);
          next_h = h_t;
          next_c = c_t
      in (next_h, next_c, (x, prev_h, next_h, prev_c, i_t, f_t, c_t, o_t, g_t)))"

subsection \<open>\<^verbatim>\<open>VanillaRNN\<close>\<close>

type_synonym rnn_meta = "mat \<times> mat \<times> mat"

record VanillaRNN =
  rnn_wx :: mat
  rnn_wh :: mat
  rnn_b :: vec
  input_dim :: nat
  rnn_grad_wx :: "mat option"
  rnn_grad_wh :: "mat option"
  rnn_grad_b :: "vec option"
  rnn_meta :: "rnn_meta list option"

text \<open>\<^verbatim>\<open>step_forward\<close> (lines 122-135), with the assertion of line 131.\<close>

definition step_forward :: "VanillaRNN \<Rightarrow> mat \<Rightarrow> mat \<Rightarrow> error + mat \<times> rnn_meta" where
  "step_forward self x prev_h =
     (if dim1 x \<noteq> input_dim self then Inl AssertionError
      else
        (let next_h = map (map tanh)
               (add_row_vec (mat_add (dot x (rnn_wx self)) (dot prev_h (rnn_wh self)))
                  (rnn_b self))
         in Inr (next_h, (x, prev_h, next_h))))"

text \<open>\<^verbatim>\<open>step_backward\<close> (lines 137-157).\<close>

definition step_backward ::
  "VanillaRNN \<Rightarrow> mat \<Rightarrow> rnn_meta \<Rightarrow> mat \<times> mat \<times> mat \<times> mat \<times> vec"
where
  "step_backward self dnext_h meta =
     (case meta of (x, prev_h, next_h) \<Rightarrow>
        (let dtanh = mat_mul dnext_h (map (map (\<lambda>h. 1.0 - h\<^sup>2)) next_h);
             dx = dot dtanh (mT (rnn_wx self));
             dprev_h = dot dtanh (mT (rnn_wh self));
             dWx = dot (mT x) dtanh;
             dWh = dot (mT prev_h) dtanh;
             db = col_sum dtanh
         in (dx, dprev_h, dWx, dWh, db)))"

text \<open>
  \<^verbatim>\<open>forward\<close> (lines 159-180): timestep 0 from \<open>h0\<close>, then the loop over
  \<^verbatim>\<open>range(1, T)\<close>, each step reading the hidden state written by the one before.
  \<^verbatim>\<open>x[:, 0, :]\<close> raises \<^verbatim>\<open>IndexError\<close> when there is no timestep.
\<close>

fun forward_loop ::
  "VanillaRNN \<Rightarrow> tensor3 \<Rightarrow> nat list \<Rightarrow> tensor3 \<times> rnn_meta list \<Rightarrow>
     error + tensor3 \<times> rnn_meta list"
where
  "forward_loop self x [] (h, meta) = Inr (h, meta)"
| "forward_loop self x (i # is) (h, meta) =
     (case step_forward self (slice_time x i) (slice_time h (i - 1)) of
        Inl e \<Rightarrow> Inl e
      | Inr (hi, meta_i) \<Rightarrow> forward_loop self x is (set_time h i hi, meta @ [meta_i]))"

definition forward :: "VanillaRNN \<Rightarrow> tensor3 \<Rightarrow> mat \<Rightarrow> error + tensor3 \<times> VanillaRNN" where
  "forward self x h0 =
     (let N = length x; T = dim1 x; h = zeros3 N T (dim1 h0) in
      if T = 0 then Inl IndexError
      else
        (case step_forward self (slice_time x 0) h0 of
           Inl e \<Rightarrow> Inl e
         | Inr (h_0, meta_0) \<Rightarrow>
             (case forward_loop self x [1..<T] (set_time h 0 h_0, [meta_0]) of
                Inl e \<Rightarrow> Inl e
              | Inr (h', meta) \<Rightarrow> Inr (h', self\<lparr>rnn_meta := Some meta\<rparr>))))"

text \<open>
  The local variables of \<^verbatim>\<open>backward\<close> that its loop updates: \<open>dx\<close>, \<open>dh0\<close>, the three
  gradient accumulators in \<^verbatim>\<open>self.grads\<close>, and \<open>dnext_h\<close>.
\<close>

record bwd_state =
  b_dx :: tensor3
  b_dh0 :: mat
  b_grad_wx :: mat
  b_grad_wh :: mat
  b_grad_b :: vec
  b_dnext_h :: mat

text \<open>The body of the loop (lines 206-214) at timestep \<open>i\<close>.\<close>

definition backward_body ::
  "VanillaRNN \<Rightarrow> tensor3 \<Rightarrow> rnn_meta list \<Rightarrow> nat \<Rightarrow> bwd_state \<Rightarrow> error + bwd_state"
where
  "backward_body self dh meta i st =
     (if length meta \<le> i then Inl IndexError
      else
        (case step_backward self (b_dnext_h st) (meta ! i) of
           (dxi, dhi, dWxi, dWhi, dbi) \<Rightarrow>
             (let st1 = st\<lparr>b_dx := set_time (b_dx st) i dxi\<rparr>;
                  st2 = (if i = 0 then st1\<lparr>b_dh0 := dhi\<rparr>
                         else st1\<lparr>b_dnext_h := mat_add dhi (slice_time dh (i - 1))\<rparr>)
              in Inr (st2\<lparr>b_grad_wx := mat_add (b_grad_wx st2) dWxi,
                           b_grad_wh := mat_add (b_grad_wh st2) dWhi,
                           b_grad_b := vec_add (b_grad_b st2) dbi\<rparr>))))"

text \<open>
  \<^verbatim>\<open>for i in reversed(range(0, T))\<close>: \<open>backward_loop \<dots> k\<close> runs the timesteps
  \<open>k - 1, \<dots>, 0\<close> in this order.
\<close>

fun backward_loop ::
  "VanillaRNN \<Rightarrow> tensor3 \<Rightarrow> rnn_meta list \<Rightarrow> nat \<Rightarrow> bwd_state \<Rightarrow> error + bwd_state"
where
  "backward_loop self dh meta 0 st = Inr st"
| "backward_loop self dh meta (Suc i) st =
     (case backward_body self dh meta i st of
        Inl e \<Rightarrow> Inl e
      | Inr st' \<Rightarrow> backward_loop self dh meta i st')"

text \<open>
  \<^verbatim>\<open>backward\<close> (lines 182-216). \<^verbatim>\<open>self.meta[0][0]\<close> raises \<^verbatim>\<open>TypeError\<close> on \<^verbatim>\<open>None\<close> and
  \<^verbatim>\<open>IndexError\<close> on the empty list; \<^verbatim>\<open>dh[:, T - 1, :]\<close> raises \<^verbatim>\<open>IndexError\<close> when
  \<open>T = 0\<close>.
\<close>

definition backward :: "VanillaRNN \<Rightarrow> tensor3 \<Rightarrow> error + (tensor3 \<times> mat) \<times> VanillaRNN" where
  "backward self dh =
     (let N = length dh; T = dim1 dh; H = dim2 dh in
      case rnn_meta self of
        None \<Rightarrow> Inl TypeError
      | Some meta \<Rightarrow>
          (case meta of
             [] \<Rightarrow> Inl IndexError
           | (x0, prev_h0, next_h0) # rest \<Rightarrow>
               (let D = dim1 x0 in
                if T = 0 then Inl IndexError
                else
                  (case backward_loop self dh meta T
                          \<lparr>b_dx = zeros3 N T D, b_dh0 = zeros N H,
                           b_grad_wx = zeros D H, b_grad_wh = zeros H H, b_grad_b = zeros1 H,
                           b_dnext_h = slice_time dh (T - 1)\<rparr> of
                     Inl e \<Rightarrow> Inl e
                   | Inr st \<Rightarrow>
                       Inr ((b_dx st, b_dh0 st),
                            self\<lparr>rnn_grad_wx := Some (b_grad_wx st),
                                 rnn_grad_wh := Some (b_grad_wh st),
                                 rnn_grad_b := Some (b_grad_b st),
                                 rnn_meta := Some []\<rparr>)))))"

text \<open>
  Entry \<open>(n, k)\<close> of the affine transformation \<open>A = x \<cdot> Wx + prev_h \<cdot> Wh + b\<close> of the LSTM
  step, as the specification words it (\<open>D\<close> input features, \<open>H\<close> hidden units).
\<close>

definition lstm_affine :: "LSTM \<Rightarrow> nat \<Rightarrow> nat \<Rightarrow> mat \<Rightarrow> mat \<Rightarrow> nat \<Rightarrow> nat \<Rightarrow> real" where
  "lstm_affine self D H x prev_h n k =
     (\<Sum>d<D. x ! n ! d * lstm_wx self ! d ! k) +
     (\<Sum>h<H. prev_h ! n ! h * lstm_wh self ! h ! k) + lstm_b self ! k"

text \<open>The five results of \<open>step_backward\<close>, by name.\<close>

definition sb_dx :: "mat \<times> mat \<times> mat \<times> mat \<times> vec \<Rightarrow> mat" where
  "sb_dx r = fst r"

definition sb_dprev_h :: "mat \<times> mat \<times> mat \<times> mat \<times> vec \<Rightarrow> mat" where
  "sb_dprev_h r = fst (snd r)"

definition sb_dWx :: "mat \<times> mat \<times> mat \<times> mat \<times> vec \<Rightarrow> mat" where
  "sb_dWx r = fst (snd (snd r))"

definition sb_dWh :: "mat \<times> mat \<times> mat \<times> mat \<times> vec \<Rightarrow> mat" where
  "sb_dWh r = fst (snd (snd (snd r)))"

definition sb_db :: "mat \<times> mat \<times> mat \<times> mat \<times> vec \<Rightarrow> vec" where
  "sb_db r = snd (snd (snd (snd r)))"

text \<open>
  The hidden-state gradient entering timestep \<open>i\<close> of a sequence of \<open>T\<close> timesteps, as
  the specification words it: at the last timestep it is \<open>dh[:, T - 1, :]\<close>, at an
  earlier one the recurrent gradient that \<open>step_backward\<close> returns for the next
  timestep plus \<open>dh[:, i, :]\<close>. \<open>incoming\<close> counts timesteps from the last one.
\<close>

fun incoming :: "VanillaRNN \<Rightarrow> tensor3 \<Rightarrow> rnn_meta list \<Rightarrow> nat \<Rightarrow> nat \<Rightarrow> mat" where
  "incoming self dh meta T 0 = slice_time dh (T - 1)"
| "incoming self dh meta T (Suc k) =
     mat_add (sb_dprev_h (step_backward self (incoming self dh meta T k) (meta ! (T - 1 - k))))
       (slice_time dh (T - 1 - Suc k))"

definition incoming_grad :: "VanillaRNN \<Rightarrow> tensor3 \<Rightarrow> rnn_meta list \<Rightarrow> nat \<Rightarrow> nat \<Rightarrow> mat" where
  "incoming_grad self dh meta T i = incoming self dh meta T (T - 1 - i)"

text \<open>
  The shapes of a forward pass over \<open>T\<close> timesteps on a batch of \<open>N\<close> with \<open>D\<close> input
  features and \<open>H\<close> hidden units: the parameters and one meta entry per timestep.
\<close>

definition rnn_shapes :: "VanillaRNN \<Rightarrow> rnn_meta list \<Rightarrow> nat \<Rightarrow> nat \<Rightarrow> nat \<Rightarrow> nat \<Rightarrow> bool" where
  "rnn_shapes self meta N T D H =
     (0 < N \<and> 0 < T \<and> 0 < D \<and> 0 < H \<and>
      is_mat D H (rnn_wx self) \<and> is_mat H H (rnn_wh self) \<and> length meta = T \<and>
      list_all (\<lambda>(x, prev_h, next_h). is_mat N D x \<and> is_mat N H prev_h \<and> is_mat N H next_h)
        meta)"

text \<open>
  The loop body run over a given list of timesteps, in the order of the list (used to
  state the order in which \<open>backward_loop\<close> visits the timesteps).
\<close>

fun run_timesteps ::
  "VanillaRNN \<Rightarrow> tensor3 \<Rightarrow> rnn_meta list \<Rightarrow> nat list \<Rightarrow> bwd_state \<Rightarrow> error + bwd_state"
where
  "run_timesteps self dh meta [] st = Inr st"
| "run_timesteps self dh meta (i # is) st =
     (case backward_body self dh meta i st of
        Inl e \<Rightarrow> Inl e
      | Inr st' \<Rightarrow> run_timesteps self dh meta is st')"

text \<open>
  A layer with one input feature and one hidden unit, for checking the passes on an
  input: input weight 0, recurrent weight 1, bias 0.
\<close>

definition rnn_example :: VanillaRNN where
  "rnn_example = \<lparr>rnn_wx = [[0]], rnn_wh = [[1]], rnn_b = [0], input_dim = 1,
                   rnn_grad_wx = None, rnn_grad_wh = None, rnn_grad_b = None,
                   rnn_meta = None\<rparr>"

section \<open>The registry after construction\<close>

lemma init_body_Inr:
  "init_body l c net = Inr net' \<longleftrightarrow>
     (\<exists>lp. params l = Some lp \<and> layer_names net (name l) = None \<and>
        net' = net\<lparr>net_params := (\<lambda>n. case lp n of Some (Some v) \<Rightarrow> Some (Some v)
                                         | _ \<Rightarrow> net_params net n),
                   net_grads := net_grads net ++ grads l,
                   layers := layers net @ [l],
                   paramName2Indices := (\<lambda>n. case lp n of Some (Some v) \<Rightarrow> Some c
                                                | _ \<Rightarrow> paramName2Indices net n),
                   layer_names := (layer_names net)(name l \<mapsto> True)\<rparr>)"
  by (auto simp: init_body_def register_params_def register_grads_def Let_def
      split: option.splits)

lemma init_body_Inl:
  "params l \<noteq> None \<Longrightarrow>
   init_body l c net = (if layer_names net (name l) = None
      then Inr (net\<lparr>net_params := (\<lambda>n. case the (params l) n of Some (Some v) \<Rightarrow> Some (Some v)
                                         | _ \<Rightarrow> net_params net n),
                   net_grads := net_grads net ++ grads l,
                   layers := layers net @ [l],
                   paramName2Indices := (\<lambda>n. case the (params l) n of Some (Some v) \<Rightarrow> Some c
                                                | _ \<Rightarrow> paramName2Indices net n),
                   layer_names := (layer_names net)(name l \<mapsto> True)\<rparr>)
      else Inl (existing_name (name l)))"
  by (auto simp: init_body_def register_params_def register_grads_def Let_def
      split: option.splits)

lemma init_body_idx:
  "init_body l c net = Inr net' \<Longrightarrow>
   paramName2Indices net' n = (if holds_tensor l n then Some c else paramName2Indices net n)"
  by (auto simp: init_body_Inr holds_tensor_def split: option.splits)

lemma init_loop_idx:
  "init_loop ls c net = Inr net' \<Longrightarrow>
     paramName2Indices net' n = last_holder ls c n (paramName2Indices net n)"
proof (induction ls arbitrary: c net)
  case Nil
  then show ?case by simp
next
  case (Cons l ls)
  then show ?case
    by (auto simp: init_body_idx split: sum.splits)
qed

lemma init_loop_layers:
  "init_loop ls c net = Inr net' \<Longrightarrow> layers net' = layers net @ ls"
proof (induction ls arbitrary: c net)
  case Nil
  then show ?case by simp
next
  case (Cons l ls)
  then show ?case
    by (auto simp: init_body_Inr split: sum.splits)
qed

lemma init_loop_params:
  "init_loop ls c net = Inr net' \<Longrightarrow> list_all (\<lambda>l. params l \<noteq> None) ls"
proof (induction ls arbitrary: c net)
  case Nil
  then show ?case by simp
next
  case (Cons l ls)
  then show ?case
    by (auto simp: init_body_Inr split: sum.splits)
qed

lemma last_holder_snoc:
  "last_holder (ls @ [l]) c n acc =
     (if holds_tensor l n then Some (c + length ls) else last_holder ls c n acc)"
  by (induction ls arbitrary: c acc) auto

lemma last_holder_Some:
  "last_holder ls c n acc = Some i \<longleftrightarrow>
     (acc = Some i \<and> (\<forall>j<length ls. \<not> holds_tensor (ls ! j) n)) \<or>
     (\<exists>k<length ls. i = c + k \<and> holds_tensor (ls ! k) n \<and>
        (\<forall>j. k < j \<and> j < length ls \<longrightarrow> \<not> holds_tensor (ls ! j) n))"
proof (induction ls rule: rev_induct)
  case Nil
  then show ?case by simp
next
  case (snoc l ls)
  show ?case
  proof (cases "holds_tensor l n")
    case True
    have "\<not> (\<forall>j<length (ls @ [l]). \<not> holds_tensor ((ls @ [l]) ! j) n)"
      using True by (auto intro: exI [of _ "length ls"])
    moreover have "(\<exists>k<length (ls @ [l]). i = c + k \<and> holds_tensor ((ls @ [l]) ! k) n \<and>
        (\<forall>j. k < j \<and> j < length (ls @ [l]) \<longrightarrow> \<not> holds_tensor ((ls @ [l]) ! j) n)) \<longleftrightarrow> i = c + length ls"
    proof
      assume "\<exists>k<length (ls @ [l]). i = c + k \<and> holds_tensor ((ls @ [l]) ! k) n \<and>
        (\<forall>j. k < j \<and> j < length (ls @ [l]) \<longrightarrow> \<not> holds_tensor ((ls @ [l]) ! j) n)"
      then obtain k where k: "k < Suc (length ls)" "i = c + k"
        and later: "\<forall>j. k < j \<and> j < Suc (length ls) \<longrightarrow> \<not> holds_tensor ((ls @ [l]) ! j) n"
        by auto
      have "\<not> k < length ls"
      proof
        assume "k < length ls"
        then have "\<not> holds_tensor ((ls @ [l]) ! length ls) n"
          using later [rule_format, of "length ls"] by simp
        then show False using True by simp
      qed
      then show "i = c + length ls" using k by simp
    next
      assume "i = c + length ls"
      then show "\<exists>k<length (ls @ [l]). i = c + k \<and> holds_tensor ((ls @ [l]) ! k) n \<and>
        (\<forall>j. k < j \<and> j < length (ls @ [l]) \<longrightarrow> \<not> holds_tensor ((ls @ [l]) ! j) n)"
        using True by (intro exI [of _ "length ls"]) auto
    qed
    ultimately show ?thesis
      using True by (auto simp only: last_holder_snoc if_True)
  next
    case False
    have a: "(\<forall>j<length (ls @ [l]). \<not> holds_tensor ((ls @ [l]) ! j) n) \<longleftrightarrow>
          (\<forall>j<length ls. \<not> holds_tensor (ls ! j) n)"
      using False by (auto simp: nth_append less_Suc_eq)
    have b: "(\<exists>k<length (ls @ [l]). i = c + k \<and> holds_tensor ((ls @ [l]) ! k) n \<and>
        (\<forall>j. k < j \<and> j < length (ls @ [l]) \<longrightarrow> \<not> holds_tensor ((ls @ [l]) ! j) n)) \<longleftrightarrow>
        (\<exists>k<length ls. i = c + k \<and> holds_tensor (ls ! k) n \<and>
        (\<forall>j. k < j \<and> j < length ls \<longrightarrow> \<not> holds_tensor (ls ! j) n))"
      using False by (auto simp: nth_append less_Suc_eq)
    show ?thesis
      unfolding a b using False snoc.IH by (simp add: last_holder_snoc)
  qed
qed

lemma init_loop_ok:
  "list_all (\<lambda>l. params l \<noteq> None) ls \<Longrightarrow> distinct (map name ls) \<Longrightarrow>
   list_all (\<lambda>l. layer_names net (name l) = None) ls \<Longrightarrow> \<exists>net'. init_loop ls c net = Inr net'"
proof (induction ls arbitrary: c net)
  case Nil
  then show ?case by simp
next
  case (Cons l ls)
  have pl: "params l \<noteq> None" and free: "layer_names net (name l) = None"
    using Cons.prems by auto
  then obtain net2 where net2: "init_body l c net = Inr net2"
    by (simp add: init_body_Inl)
  have ln: "layer_names net2 = (layer_names net)(name l \<mapsto> True)"
    using net2 by (auto simp: init_body_Inr)
  have "list_all (\<lambda>l'. layer_names net2 (name l') = None) ls"
    unfolding ln using Cons.prems(2,3) by (force simp: list_all_iff image_iff)
  moreover have "list_all (\<lambda>l. params l \<noteq> None) ls" "distinct (map name ls)"
    using Cons.prems by auto
  ultimately obtain net' where "init_loop ls (Suc c) net2 = Inr net'"
    using Cons.IH by blast
  then show ?case using net2 by simp
qed

lemma init_loop_dup:
  "list_all (\<lambda>l. params l \<noteq> None) ls \<Longrightarrow>
   \<not> (distinct (map name ls) \<and> list_all (\<lambda>l. layer_names net (name l) = None) ls) \<Longrightarrow>
   \<exists>n j. init_loop ls c net = Inl (existing_name n) \<and> j < length ls \<and> name (ls ! j) = n \<and>
         (layer_names net n \<noteq> None \<or> (\<exists>i<j. name (ls ! i) = n))"
proof (induction ls arbitrary: c net)
  case Nil
  then show ?case by simp
next
  case (Cons l ls)
  have pl: "params l \<noteq> None" using Cons.prems(1) by auto
  show ?case
  proof (cases "layer_names net (name l) = None")
    case False
    then have "init_body l c net = Inl (existing_name (name l))"
      using pl by (simp add: init_body_Inl)
    then have "init_loop (l # ls) c net = Inl (existing_name (name l))"
      by simp
    then show ?thesis using False by (intro exI [of _ "name l"] exI [of _ 0]) simp
  next
    case True
    then obtain net2 where net2: "init_body l c net = Inr net2"
      using pl by (simp add: init_body_Inl)
    have ln: "layer_names net2 = (layer_names net)(name l \<mapsto> True)"
      using net2 by (auto simp: init_body_Inr)
    have step: "init_loop (l # ls) c net = init_loop ls (Suc c) net2"
      using net2 by simp
    have eq: "list_all (\<lambda>l'. layer_names net2 (name l') = None) ls \<longleftrightarrow>
          list_all (\<lambda>l'. layer_names net (name l') = None) ls \<and> name l \<notin> set (map name ls)"
      unfolding ln by (induction ls) auto
    have "\<not> (distinct (map name ls) \<and> list_all (\<lambda>l'. layer_names net2 (name l') = None) ls)"
      unfolding eq using Cons.prems(2) True by auto
    moreover have "list_all (\<lambda>l. params l \<noteq> None) ls" using Cons.prems(1) by simp
    ultimately obtain n j where r: "init_loop ls (Suc c) net2 = Inl (existing_name n)"
      "j < length ls" "name (ls ! j) = n"
      "layer_names net2 n \<noteq> None \<or> (\<exists>i<j. name (ls ! i) = n)"
      using Cons.IH by blast
    have "layer_names net n \<noteq> None \<or> (\<exists>i<Suc j. name ((l # ls) ! i) = n)"
    proof (cases "\<exists>i<j. name (ls ! i) = n")
      case True
      then obtain i where "i < j" "name (ls ! i) = n" by blast
      then have "Suc i < Suc j \<and> name ((l # ls) ! Suc i) = n" by simp
      then show ?thesis by blast
    next
      case False
      then have "layer_names net2 n \<noteq> None" using r(4) by blast
      then have "n = name l \<or> layer_names net n \<noteq> None"
        unfolding ln by (auto split: if_splits)
      then show ?thesis
      proof
        assume "n = name l"
        then have "0 < Suc j \<and> name ((l # ls) ! 0) = n" by simp
        then show ?thesis by blast
      qed simp
    qed
    then show ?thesis
      using r(1,2,3) step by (intro exI [of _ n] exI [of _ "Suc j"]) simp
  qed
qed

text \<open>
  C7 (as amended). Built from layers that all expose a parameter mapping, the
  constructor succeeds exactly when the layer names are distinct, and otherwise raises
  the duplicate-name \<open>ValueError\<close> for a name two layers share. After a successful
  construction the registry maps a name to \<open>i\<close> exactly when layer \<open>i\<close> is the last
  layer of the sequence holding a tensor (not \<^verbatim>\<open>None\<close>) under that name; so a name has
  at most one entry, every name held with a tensor has one, and a name held by a single
  layer is mapped to that layer.
\<close>

theorem RNN_init_registry:
  assumes "list_all (\<lambda>l. params l \<noteq> None) ls"
  shows "(distinct (map name ls) \<longrightarrow>
            (\<exists>net. RNN_init ls = Inr net \<and> layers net = ls \<and>
               (\<forall>n i. paramName2Indices net n = Some i \<longleftrightarrow>
                  i < length ls \<and> holds_tensor (ls ! i) n \<and>
                  (\<forall>j. i < j \<and> j < length ls \<longrightarrow> \<not> holds_tensor (ls ! j) n)))) \<and>
         (\<not> distinct (map name ls) \<longrightarrow>
            (\<exists>n i j. RNN_init ls = Inl (existing_name n) \<and> i < j \<and> j < length ls \<and>
               name (ls ! i) = n \<and> name (ls ! j) = n))"
proof (intro conjI impI)
  assume d: "distinct (map name ls)"
  have "list_all (\<lambda>l. layer_names (empty_RNN :: 'a RNN) (name l) = None) ls"
    by (simp add: empty_RNN_def list_all_iff)
  then obtain net where net: "RNN_init ls = Inr net"
    using init_loop_ok [OF assms d] unfolding RNN_init_def by blast
  have l: "layers net = ls"
    using init_loop_layers [OF net [unfolded RNN_init_def]] by (simp add: empty_RNN_def)
  have "\<And>n i. paramName2Indices net n = Some i \<longleftrightarrow>
                  i < length ls \<and> holds_tensor (ls ! i) n \<and>
                  (\<forall>j. i < j \<and> j < length ls \<longrightarrow> \<not> holds_tensor (ls ! j) n)"
    unfolding init_loop_idx [OF net [unfolded RNN_init_def]] last_holder_Some
    by (auto simp: empty_RNN_def)
  then show "\<exists>net. RNN_init ls = Inr net \<and> layers net = ls \<and>
               (\<forall>n i. paramName2Indices net n = Some i \<longleftrightarrow>
                  i < length ls \<and> holds_tensor (ls ! i) n \<and>
                  (\<forall>j. i < j \<and> j < length ls \<longrightarrow> \<not> holds_tensor (ls ! j) n))"
    using net l by blast
next
  assume nd: "\<not> distinct (map name ls)"
  then have "\<not> (distinct (map name ls) \<and>
                list_all (\<lambda>l. layer_names (empty_RNN :: 'a RNN) (name l) = None) ls)"
    by simp
  from init_loop_dup [OF assms this, of 0]
  obtain n j where r: "init_loop ls 0 (empty_RNN :: 'a RNN) = Inl (existing_name n)"
    "j < length ls" "name (ls ! j) = n"
    "layer_names (empty_RNN :: 'a RNN) n \<noteq> None \<or> (\<exists>i<j. name (ls ! i) = n)"
    by blast
  then obtain i where "i < j" "name (ls ! i) = n" by (auto simp: empty_RNN_def)
  then show "\<exists>n i j. RNN_init ls = Inl (existing_name n) \<and> i < j \<and> j < length ls \<and>
               name (ls ! i) = n \<and> name (ls ! j) = n"
    using r(1,2,3) unfolding RNN_init_def by blast
qed

text \<open>
  The theorem at the network of \<open>we_layer\<close> and \<open>fc_layer\<close> (distinct names: the weight
  of the second layer is registered under index 1) and at \<open>we_layer\<close> given twice
  (the constructor raises).
\<close>

theorem RNN_init_registry_witness:
  "list_all (\<lambda>l. params l \<noteq> None) [we_layer, fc_layer] \<and>
   (\<exists>net. RNN_init [we_layer, fc_layer] = Inr net \<and> layers net = [we_layer, fc_layer] \<and>
      paramName2Indices net ''t_fc_w'' = Some 1) \<and>
   list_all (\<lambda>l. params l \<noteq> None) [we_layer, we_layer] \<and>
   (\<exists>n. RNN_init [we_layer, we_layer] = Inl (existing_name n))"
proof -
  have p1: "list_all (\<lambda>l. params l \<noteq> None) [we_layer, fc_layer]"
    by (simp add: we_layer_def fc_layer_def)
  have p2: "list_all (\<lambda>l. params l \<noteq> None) [we_layer, we_layer]"
    by (simp add: we_layer_def)
  have d1: "distinct (map name [we_layer, fc_layer])"
    by (simp add: we_layer_def fc_layer_def)
  have d2: "\<not> distinct (map name [we_layer, we_layer])"
    by simp
  obtain net where net: "RNN_init [we_layer, fc_layer] = Inr net"
    "layers net = [we_layer, fc_layer]"
    and idx: "\<And>n i. paramName2Indices net n = Some i \<longleftrightarrow>
                  i < length [we_layer, fc_layer] \<and> holds_tensor ([we_layer, fc_layer] ! i) n \<and>
                  (\<forall>j. i < j \<and> j < length [we_layer, fc_layer] \<longrightarrow>
                       \<not> holds_tensor ([we_layer, fc_layer] ! j) n)"
    using RNN_init_registry [OF p1] d1 by blast
  have "paramName2Indices net ''t_fc_w'' = Some 1"
    unfolding idx by (simp add: holds_tensor_def fc_layer_def)
  moreover have "\<exists>n. RNN_init [we_layer, we_layer] = Inl (existing_name n)"
    using RNN_init_registry [OF p2] d2 by blast
  ultimately show ?thesis using p1 p2 net by blast
qed

text \<open>
  C7 as the claim words it fails for a parameter whose value is \<^verbatim>\<open>None\<close>: line 35
  skips it, so the name is present in the layer and absent from the registry.
\<close>

theorem RNN_init_registry_counterexample:
  "(case RNN_init [absent_layer] of
      Inl e \<Rightarrow> False
    | Inr net \<Rightarrow> has_key (layers net ! 0) ''l_w'' \<and> paramName2Indices net ''l_w'' = None)"
  by (simp add: RNN_init_def empty_RNN_def absent_layer_def init_body_def register_params_def
      register_grads_def has_key_def Let_def)

section \<open>\<open>assign\<close>, \<open>get_params\<close>, \<open>gather_params\<close> and \<open>load\<close>\<close>

lemma init_loop_snoc:
  "init_loop (ls @ [l]) c net =
     (case init_loop ls c net of Inl e \<Rightarrow> Inl e | Inr net1 \<Rightarrow> init_body l (c + length ls) net1)"
  by (induction ls arbitrary: c net) (auto split: sum.splits)

lemma RNN_init_registered:
  "RNN_init ls = Inr net \<Longrightarrow> paramName2Indices net n = Some i \<Longrightarrow>
     i < length ls \<and>
     (\<exists>ps w. params (ls ! i) = Some ps \<and> ps n = Some (Some w) \<and>
             net_params net n = Some (Some w))"
  unfolding RNN_init_def
proof (induction ls arbitrary: net i rule: rev_induct)
  case Nil
  then show ?case by (auto simp: empty_RNN_def)
next
  case (snoc l ls)
  from snoc.prems(1) obtain net1 where n1: "init_loop ls 0 empty_RNN = Inr net1"
    and body: "init_body l (length ls) net1 = Inr net"
    by (auto simp: init_loop_snoc split: sum.splits)
  from body obtain lp where lp: "params l = Some lp"
    and np: "net_params net = (\<lambda>n. case lp n of Some (Some v) \<Rightarrow> Some (Some v)
                                      | _ \<Rightarrow> net_params net1 n)"
    and ix: "paramName2Indices net = (\<lambda>n. case lp n of Some (Some v) \<Rightarrow> Some (length ls)
                                      | _ \<Rightarrow> paramName2Indices net1 n)"
    by (auto simp: init_body_Inr)
  show ?case
  proof (cases "\<exists>v. lp n = Some (Some v)")
    case True
    then obtain v where v: "lp n = Some (Some v)" by blast
    then have "i = length ls" using snoc.prems(2) by (simp add: ix)
    then show ?thesis using lp v by (simp add: np)
  next
    case False
    then have old: "paramName2Indices net1 n = Some i" "net_params net n = net_params net1 n"
      using snoc.prems(2) by (auto simp: ix np split: option.splits)
    from snoc.IH [OF n1 old(1)] show ?thesis
      using old(2) by (auto simp: nth_append)
  qed
qed

lemma gather_loop_keep:
  "list_all (\<lambda>l. params l \<noteq> None) ls \<Longrightarrow> list_all (\<lambda>l. \<not> has_key l n) ls \<Longrightarrow>
     \<exists>ps'. gather_loop ls ps = Inr ps' \<and> ps' n = ps n"
proof (induction ls arbitrary: ps)
  case Nil
  then show ?case by simp
next
  case (Cons l ls)
  then obtain lp where lp: "params l = Some lp" "lp n = None"
    by (auto simp: has_key_def)
  from Cons.IH [of "ps ++ lp"] Cons.prems
  obtain ps' where "gather_loop ls (ps ++ lp) = Inr ps'" "ps' n = (ps ++ lp) n"
    by auto
  then show ?case using lp by (simp add: map_add_def)
qed

lemma gather_loop_last:
  "list_all (\<lambda>l. params l \<noteq> None) ls \<Longrightarrow> k < length ls \<Longrightarrow> params (ls ! k) = Some lp \<Longrightarrow>
   lp n = Some v \<Longrightarrow> (\<forall>j. k < j \<and> j < length ls \<longrightarrow> \<not> has_key (ls ! j) n) \<Longrightarrow>
     \<exists>ps'. gather_loop ls ps = Inr ps' \<and> ps' n = Some v"
proof (induction ls arbitrary: ps k)
  case Nil
  then show ?case by simp
next
  case (Cons l ls)
  show ?case
  proof (cases k)
    case 0
    then have l: "params l = Some lp" using Cons.prems(3) by simp
    have "list_all (\<lambda>l. \<not> has_key l n) ls"
      unfolding list_all_length
    proof (intro allI impI)
      fix j assume "j < length ls"
      then show "\<not> has_key (ls ! j) n"
        using Cons.prems(5) [rule_format, of "Suc j"] 0 by simp
    qed
    moreover have "list_all (\<lambda>l. params l \<noteq> None) ls" using Cons.prems(1) by simp
    ultimately obtain ps' where "gather_loop ls (ps ++ lp) = Inr ps'" "ps' n = (ps ++ lp) n"
      using gather_loop_keep by blast
    then show ?thesis using l Cons.prems(4) by (simp add: map_add_def)
  next
    case (Suc k')
    obtain lq where lq: "params l = Some lq" using Cons.prems(1) by auto
    have "\<forall>j. k' < j \<and> j < length ls \<longrightarrow> \<not> has_key (ls ! j) n"
    proof (intro allI impI)
      fix j assume "k' < j \<and> j < length ls"
      then show "\<not> has_key (ls ! j) n"
        using Cons.prems(5) [rule_format, of "Suc j"] Suc by simp
    qed
    moreover have "list_all (\<lambda>l. params l \<noteq> None) ls" "k' < length ls"
      "params (ls ! k') = Some lp"
      using Cons.prems(1,2,3) Suc by auto
    ultimately obtain ps' where "gather_loop ls (ps ++ lq) = Inr ps'" "ps' n = Some v"
      using Cons.IH [of k' "ps ++ lq"] Cons.prems(4) by blast
    then show ?thesis using lq by simp
  qed
qed

text \<open>
  C1 (as amended). In a network built by the constructor, \<open>assign\<close> on a registered name
  succeeds and writes the value into the owning layer's own parameter mapping; the
  container's flattened dictionary is not touched, so \<open>get_params\<close> still returns the
  tensor registered at construction. Once \<open>gather_params\<close> has run, \<open>get_params\<close>
  returns the assigned value, provided no later layer has an entry under that name.
\<close>

theorem assign_get_params:
  assumes "RNN_init ls = Inr net" and "paramName2Indices net n = Some i"
  shows "\<exists>net' ps w. assign net n v = Inr net' \<and>
           params (ls ! i) = Some ps \<and> ps n = Some (Some w) \<and>
           get_params net n = Inr (Some w) \<and> get_params net' n = Inr (Some w) \<and>
           layers net' = ls[i := (ls ! i)\<lparr>params := Some (ps(n \<mapsto> v))\<rparr>] \<and>
           ((\<forall>j. i < j \<and> j < length ls \<longrightarrow> \<not> has_key (ls ! j) n) \<longrightarrow>
              (\<exists>net''. gather_params net' = Inr net'' \<and> get_params net'' n = Inr v))"
proof -
  have ls: "layers net = ls"
    using init_loop_layers [OF assms(1) [unfolded RNN_init_def]] by (simp add: empty_RNN_def)
  have allp: "list_all (\<lambda>l. params l \<noteq> None) ls"
    using init_loop_params [OF assms(1) [unfolded RNN_init_def]] .
  from RNN_init_registered [OF assms] obtain ps w where i: "i < length ls"
    and ps: "params (ls ! i) = Some ps" "ps n = Some (Some w)"
    and reg: "net_params net n = Some (Some w)"
    by blast
  define l' where "l' = (ls ! i)\<lparr>params := Some (ps(n \<mapsto> v))\<rparr>"
  define net' where "net' = net\<lparr>layers := ls[i := l']\<rparr>"
  have a: "assign net n v = Inr net'"
    using assms(2) i ps(1) by (simp add: assign_def ls net'_def l'_def)
  have g0: "get_params net n = Inr (Some w)"
    using reg by (simp add: get_params_def)
  have g1: "get_params net' n = Inr (Some w)"
    using reg by (simp add: get_params_def net'_def)
  have gather: "\<exists>net''. gather_params net' = Inr net'' \<and> get_params net'' n = Inr v"
    if later: "\<forall>j. i < j \<and> j < length ls \<longrightarrow> \<not> has_key (ls ! j) n"
  proof -
    have 1: "list_all (\<lambda>l. params l \<noteq> None) (ls[i := l'])"
      using allp i by (auto simp: list_all_length nth_list_update l'_def)
    have 2: "params ((ls[i := l']) ! i) = Some (ps(n \<mapsto> v))" "(ps(n \<mapsto> v)) n = Some v"
      using i by (simp_all add: l'_def)
    have 3: "\<forall>j. i < j \<and> j < length (ls[i := l']) \<longrightarrow> \<not> has_key ((ls[i := l']) ! j) n"
      using later by (auto simp: nth_list_update)
    from gather_loop_last [OF 1 _ 2 3, of "net_params net'"] i
    obtain ps' where "gather_loop (ls[i := l']) (net_params net') = Inr ps'" "ps' n = Some v"
      by auto
    then show ?thesis
      by (simp add: gather_params_def get_params_def net'_def)
  qed
  show ?thesis
    using a ps g0 g1 gather by (auto simp: net'_def l'_def)
qed

text \<open>
  The theorem at the network of \<open>we_layer\<close> and \<open>fc_layer\<close>, assigning a new embedding
  table: \<open>get_params\<close> returns the old table, and the new one after \<open>gather_params\<close>.
\<close>

theorem assign_get_params_witness:
  "\<exists>net net' net''. RNN_init [we_layer, fc_layer] = Inr net \<and>
     paramName2Indices net ''we_w'' = Some 0 \<and>
     assign net ''we_w'' (Some (Mat [[9, 9], [9, 9]])) = Inr net' \<and>
     get_params net' ''we_w'' = Inr (Some (Mat [[1, 2], [3, 4]])) \<and>
     gather_params net' = Inr net'' \<and>
     get_params net'' ''we_w'' = Inr (Some (Mat [[9, 9], [9, 9]]))"
proof -
  have "list_all (\<lambda>l. params l \<noteq> None) [we_layer, fc_layer]"
    "distinct (map name [we_layer, fc_layer])"
    "list_all (\<lambda>l. layer_names (empty_RNN :: ndarray RNN) (name l) = None) [we_layer, fc_layer]"
    by (simp_all add: we_layer_def fc_layer_def empty_RNN_def)
  then obtain net where net: "RNN_init [we_layer, fc_layer] = Inr net"
    unfolding RNN_init_def using init_loop_ok by blast
  have idx: "paramName2Indices net ''we_w'' = Some 0"
    unfolding init_loop_idx [OF net [unfolded RNN_init_def]]
    by (simp add: holds_tensor_def we_layer_def fc_layer_def)
  have later: "\<forall>j. 0 < j \<and> j < length [we_layer, fc_layer] \<longrightarrow>
                  \<not> has_key ([we_layer, fc_layer] ! j) ''we_w''"
    by (auto simp: less_Suc_eq has_key_def fc_layer_def)
  from assign_get_params [OF net idx, of "Some (Mat [[9, 9], [9, 9]])"] later
  obtain net' net'' ps w where r:
    "assign net ''we_w'' (Some (Mat [[9, 9], [9, 9]])) = Inr net'"
    "params ([we_layer, fc_layer] ! 0) = Some ps" "ps ''we_w'' = Some (Some w)"
    "get_params net' ''we_w'' = Inr (Some w)"
    "gather_params net' = Inr net''"
    "get_params net'' ''we_w'' = Inr (Some (Mat [[9, 9], [9, 9]]))"
    by blast
  have "w = Mat [[1, 2], [3, 4]]"
    using r(2,3) by (auto simp: we_layer_def)
  then show ?thesis using net idx r by blast
qed

text \<open>
  C1 as the claim words it fails: right after \<open>assign\<close>, \<open>get_params\<close> returns the
  tensor registered at construction, not the assigned one.
\<close>

theorem assign_get_params_counterexample:
  "(case RNN_init [we_layer, fc_layer] of
      Inl e \<Rightarrow> False
    | Inr net \<Rightarrow>
        (case assign net ''we_w'' (Some (Mat [[9, 9], [9, 9]])) of
           Inl e \<Rightarrow> False
         | Inr net' \<Rightarrow>
             get_params net' ''we_w'' = Inr (Some (Mat [[1, 2], [3, 4]])) \<and>
             get_params net' ''we_w'' \<noteq> Inr (Some (Mat [[9, 9], [9, 9]]))))"
  by (simp add: RNN_init_def empty_RNN_def we_layer_def fc_layer_def init_body_def
      register_params_def register_grads_def assign_def get_params_def Let_def)

text \<open>
  C8. \<open>load\<close> changes nothing but the layers' parameter mappings. A layer without a
  parameter mapping is left as it is. In a layer with one, an entry whose name is a key
  of the pretrained mapping gets the pretrained tensor, every other entry keeps its
  value, and no entry is added.
\<close>

theorem load_overwrites:
  "length (layers (load net pretrained)) = length (layers net) \<and>
   net_params (load net pretrained) = net_params net \<and>
   net_grads (load net pretrained) = net_grads net \<and>
   paramName2Indices (load net pretrained) = paramName2Indices net \<and>
   layer_names (load net pretrained) = layer_names net \<and>
   (\<forall>i<length (layers net).
      name (layers (load net pretrained) ! i) = name (layers net ! i) \<and>
      grads (layers (load net pretrained) ! i) = grads (layers net ! i) \<and>
      (case params (layers net ! i) of
         None \<Rightarrow> layers (load net pretrained) ! i = layers net ! i
       | Some lp \<Rightarrow>
           (\<exists>lp'. params (layers (load net pretrained) ! i) = Some lp' \<and>
              (\<forall>n. lp' n = (if lp n \<noteq> None \<and> pretrained n \<noteq> None
                             then Some (pretrained n) else lp n)))))"
  by (auto simp: load_def load_layer_def split: option.splits)

text \<open>
  The theorem at a container holding \<open>we_layer\<close>, an object without parameters and
  \<open>fc_layer\<close>, loaded with a mapping that has the embedding table and a name no layer
  has.
\<close>

theorem load_overwrites_witness:
  "(\<exists>lp'. params (layers (load (empty_RNN\<lparr>layers := [we_layer, bare_layer, fc_layer]\<rparr>)
                     [''we_w'' \<mapsto> Mat [[7, 7], [7, 7]], ''other'' \<mapsto> Vec [5]]) ! 0) = Some lp' \<and>
          lp' ''we_w'' = Some (Some (Mat [[7, 7], [7, 7]])) \<and> lp' ''other'' = None) \<and>
   layers (load (empty_RNN\<lparr>layers := [we_layer, bare_layer, fc_layer]\<rparr>)
                     [''we_w'' \<mapsto> Mat [[7, 7], [7, 7]], ''other'' \<mapsto> Vec [5]]) ! 1 = bare_layer \<and>
   (\<exists>lp'. params (layers (load (empty_RNN\<lparr>layers := [we_layer, bare_layer, fc_layer]\<rparr>)
                     [''we_w'' \<mapsto> Mat [[7, 7], [7, 7]], ''other'' \<mapsto> Vec [5]]) ! 2) = Some lp' \<and>
          lp' ''t_fc_w'' = Some (Some (Mat [[1], [2]])))"
proof -
  let ?net = "empty_RNN\<lparr>layers := [we_layer, bare_layer, fc_layer]\<rparr>"
  let ?pre = "[''we_w'' \<mapsto> Mat [[7, 7], [7, 7]], ''other'' \<mapsto> Vec [5]]"
  note t = load_overwrites [of ?net ?pre, THEN conjunct2, THEN conjunct2, THEN conjunct2,
      THEN conjunct2, THEN conjunct2, rule_format]
  have len: "0 < length (layers ?net)" "1 < length (layers ?net)" "2 < length (layers ?net)"
    by simp_all
  have p: "params (layers ?net ! 0) = Some [''we_w'' \<mapsto> Some (Mat [[1, 2], [3, 4]])]"
    "params (layers ?net ! 1) = None"
    "params (layers ?net ! 2) = Some [''t_fc_w'' \<mapsto> Some (Mat [[1], [2]]),
                                      ''t_fc_b'' \<mapsto> Some (Vec [0])]"
    by (simp_all add: we_layer_def bare_layer_def fc_layer_def)
  from t [OF len(1)] obtain lp0 where lp0: "params (layers (load ?net ?pre) ! 0) = Some lp0"
    "\<And>n. lp0 n = (if [''we_w'' \<mapsto> Some (Mat [[1, 2], [3, 4]])] n \<noteq> None \<and> ?pre n \<noteq> None
                    then Some (?pre n) else [''we_w'' \<mapsto> Some (Mat [[1, 2], [3, 4]])] n)"
    unfolding p by auto
  from t [OF len(2)] have "layers (load ?net ?pre) ! 1 = layers ?net ! 1"
    unfolding p by simp
  then have l1: "layers (load ?net ?pre) ! 1 = bare_layer"
    by simp
  from t [OF len(3)] obtain lp2 where lp2: "params (layers (load ?net ?pre) ! 2) = Some lp2"
    "\<And>n. lp2 n = (if [''t_fc_w'' \<mapsto> Some (Mat [[1], [2]]),
                        ''t_fc_b'' \<mapsto> Some (Vec [0])] n \<noteq> None \<and> ?pre n \<noteq> None
                    then Some (?pre n)
                    else [''t_fc_w'' \<mapsto> Some (Mat [[1], [2]]), ''t_fc_b'' \<mapsto> Some (Vec [0])] n)"
    unfolding p by auto
  have "lp0 ''we_w'' = Some (Some (Mat [[7, 7], [7, 7]]))" "lp0 ''other'' = None"
    "lp2 ''t_fc_w'' = Some (Some (Mat [[1], [2]]))"
    unfolding lp0(2) lp2(2) by simp_all
  then show ?thesis using lp0(1) lp2(1) l1 by blast
qed


section \<open>Flattened arrays\<close>

lemma is_mat_nth: "is_mat n m A \<Longrightarrow> i < n \<Longrightarrow> length (A ! i) = m"
  by (simp add: is_mat_def list_all_length)

lemma is_tensor3_nth: "is_tensor3 n t d X \<Longrightarrow> i < n \<Longrightarrow> is_mat t d (X ! i)"
  by (simp add: is_tensor3_def list_all_length)

lemma is_mat_length: "is_mat n m A \<Longrightarrow> length A = n"
  by (simp add: is_mat_def)

lemma is_tensor3_length: "is_tensor3 n t d X \<Longrightarrow> length X = n"
  by (simp add: is_tensor3_def)

lemma is_mat_dim1: "is_mat n m A \<Longrightarrow> 0 < n \<Longrightarrow> dim1 A = m"
  by (cases A) (auto simp: is_mat_def dim1_def)

lemma is_tensor3_dim1: "is_tensor3 n t d X \<Longrightarrow> 0 < n \<Longrightarrow> dim1 X = t"
  by (cases X) (auto simp: is_tensor3_def is_mat_def dim1_def)

lemma is_tensor3_dim2: "is_tensor3 n t d X \<Longrightarrow> 0 < n \<Longrightarrow> 0 < t \<Longrightarrow> dim2 X = d"
  by (cases X) (auto simp: is_tensor3_def dim2_def is_mat_dim1)

lemma concat_length: "is_mat n m A \<Longrightarrow> length (concat A) = n * m"
proof (induction A arbitrary: n)
  case Nil
  then show ?case by (simp add: is_mat_def)
next
  case (Cons r A)
  then obtain n' where "n = Suc n'" "is_mat n' m A" "length r = m"
    by (cases n) (auto simp: is_mat_def)
  then show ?case using Cons.IH by simp
qed

lemma concat_nth:
  "is_mat n m A \<Longrightarrow> i < n \<Longrightarrow> j < m \<Longrightarrow> concat A ! (i * m + j) = A ! i ! j"
proof (induction A arbitrary: n i)
  case Nil
  then show ?case by (simp add: is_mat_def)
next
  case (Cons r A)
  then obtain n' where n': "n = Suc n'" "is_mat n' m A" "length r = m"
    by (cases n) (auto simp: is_mat_def)
  show ?case
  proof (cases i)
    case 0
    then show ?thesis using Cons.prems(3) n'(3) by (simp add: nth_append)
  next
    case (Suc i')
    then have "i' < n'" using Cons.prems(2) n'(1) by simp
    from Cons.IH [OF n'(2) this Cons.prems(3)] show ?thesis
      using Suc n'(3) by (simp add: nth_append)
  qed
qed

lemma is_tensor3_concat: "is_tensor3 n t d X \<Longrightarrow> is_mat (n * t) d (concat X)"
proof (induction X arbitrary: n)
  case Nil
  then show ?case by (simp add: is_tensor3_def is_mat_def)
next
  case (Cons M X)
  then obtain n' where "n = Suc n'" "is_tensor3 n' t d X" "is_mat t d M"
    by (cases n) (auto simp: is_tensor3_def)
  then show ?case using Cons.IH [of n'] by (auto simp: is_mat_def)
qed

lemma is_tensor3_outer: "is_tensor3 n t d X \<Longrightarrow> is_mat n t X"
  by (auto simp: is_tensor3_def is_mat_def list_all_iff)

lemma sum_flat: "(\<Sum>k<(n::nat) * m. f k) = (\<Sum>i<n. \<Sum>j<m. (f (i * m + j) :: real))"
proof (induction n)
  case 0
  then show ?case by simp
next
  case (Suc n)
  have "(\<Sum>k<Suc n * m. f k) = (\<Sum>k<n * m + m. f k)"
    by (simp add: add.commute)
  also have "\<dots> = (\<Sum>k<n * m. f k) + (\<Sum>j<m. f (n * m + j))"
    by (simp add: sum.nat_group lessThan_atLeast0 sum.atLeastLessThan_concat [symmetric]
        sum.shift_bounds_nat_ivl [symmetric] add.commute)
  finally show ?case using Suc by simp
qed

lemma sum_list_nth: "sum_list xs = (\<Sum>k<length xs. (xs ! k :: real))"
  by (simp add: sum_list_sum_nth lessThan_atLeast0)

lemma list_all_concat_nth:
  "is_mat n m A \<Longrightarrow> list_all (list_all P) A \<Longrightarrow> k < n * m \<Longrightarrow> P (concat A ! k)"
  by (metis concat_length list_all_length nth_mem set_concat UN_E list_all_iff)

section \<open>The temporal softmax loss\<close>

lemma softmax_row_nth:
  "j < length r \<Longrightarrow> softmax_row r ! j = stable_softmax_prob r j"
  by (simp add: softmax_row_def stable_softmax_prob_def Let_def sum_list_nth)

lemma softmax_row_length [simp]: "length (softmax_row r) = length r"
  by (simp add: softmax_row_def Let_def)

lemma stable_softmax_prob_plain:
  assumes "j < length r"
  shows "stable_softmax_prob r j = exp (r ! j) / (\<Sum>i<length r. exp (r ! i))"
proof -
  have "(\<Sum>i<length r. exp (r ! i - Max (set r))) = (\<Sum>i<length r. exp (r ! i)) / exp (Max (set r))"
    by (simp add: exp_diff sum_divide_distrib)
  then show ?thesis
    by (simp add: stable_softmax_prob_def exp_diff)
qed

lemma stable_softmax_prob_pos:
  assumes "j < length r"
  shows "0 < stable_softmax_prob r j"
proof -
  have "0 < (\<Sum>i<length r. exp (r ! i - Max (set r)))"
    using assms by (intro sum_pos) auto
  then show ?thesis by (simp add: stable_softmax_prob_def)
qed

lemma in_bounds_nonneg: "0 \<le> j \<Longrightarrow> j < int V \<Longrightarrow> in_bounds V j \<and> py_idx V j = nat j"
  by (simp add: in_bounds_def py_idx_def)



lemma forward_state:
  "temporal_softmax_loss_forward self feat lbl msk = Inr (loss, s0) \<Longrightarrow>
     s0 = self\<lparr>dLoss := Some (map softmax_row (concat feat)), label := Some lbl,
               mask' := Some msk\<rparr>"
  by (auto simp: temporal_softmax_loss_forward_def Let_def split: if_splits)

lemma concat_reshape_rows: "concat (reshape_rows N T xs) = take (N * T) xs"
proof (induction N)
  case 0
  then show ?case by (simp add: reshape_rows_def)
next
  case (Suc N)
  have "reshape_rows (Suc N) T xs = reshape_rows N T xs @ [take T (drop (N * T) xs)]"
    by (simp add: reshape_rows_def)
  then have "concat (reshape_rows (Suc N) T xs) = take (N * T) xs @ take T (drop (N * T) xs)"
    using Suc by simp
  also have "\<dots> = take (N * T + T) xs"
    by (simp only: take_add)
  finally show ?case by (simp add: add.commute)
qed

lemma reshape_rows_inj:
  "length xs = N * T \<Longrightarrow> length ys = N * T \<Longrightarrow> reshape_rows N T xs = reshape_rows N T ys \<longleftrightarrow> xs = ys"
  by (metis concat_reshape_rows order_refl take_all)

lemma dLoss_step_length:
  "length d = n \<Longrightarrow> length lf = n \<Longrightarrow> length mf = n \<Longrightarrow> length (dLoss_step da N lf mf d) = n"
  by (simp add: dLoss_step_def subtract_at_labels_def divide_by_def times_mask_def Let_def)

lemma dLoss_step_row:
  assumes "length d = n" "length lf = n" "length mf = n" "k < n"
  shows "dLoss_step da N lf mf d ! k =
           map (\<lambda>x. x * mf ! k)
             (map (\<lambda>x. if da then x / real N else x)
                ((d ! k)[py_idx (dim1 d) (lf ! k) := d ! k ! py_idx (dim1 d) (lf ! k) - 1]))"
  using assms
  by (simp add: dLoss_step_def subtract_at_labels_def divide_by_def times_mask_def Let_def)

lemma dLoss_step_is_mat:
  assumes "is_mat n V d" "length lf = n" "length mf = n"
  shows "is_mat n V (dLoss_step da N lf mf d)"
  unfolding is_mat_def list_all_length
proof (intro conjI allI impI)
  show len: "length (dLoss_step da N lf mf d) = n"
    using assms by (simp add: dLoss_step_length is_mat_length)
  fix k assume "k < length (dLoss_step da N lf mf d)"
  then have k: "k < n" using len by simp
  show "length (dLoss_step da N lf mf d ! k) = V"
    using dLoss_step_row [OF is_mat_length [OF assms(1)] assms(2,3) k] is_mat_nth [OF assms(1) k]
    by simp
qed

lemma dLoss_step_entry:
  assumes "is_mat n V d" "length lf = n" "length mf = n" "k < n" "0 < n"
    and "0 \<le> lf ! k" "lf ! k < int V"
  shows "dLoss_step da N lf mf d ! k ! nat (lf ! k) =
           (if da then (d ! k ! nat (lf ! k) - 1) / real N else d ! k ! nat (lf ! k) - 1) * mf ! k"
proof -
  have V: "dim1 d = V" using is_mat_dim1 [OF assms(1,5)] .
  have l: "nat (lf ! k) < length (d ! k)"
    using is_mat_nth [OF assms(1,4)] assms(6,7) by linarith
  show ?thesis
    unfolding dLoss_step_row [OF is_mat_length [OF assms(1)] assms(2,3,4)] V
    using l assms(6,7) by (simp add: in_bounds_nonneg)
qed

lemma dLoss_step_masked:
  assumes "is_mat n V d" "length lf = n" "length mf = n" "list_all (\<lambda>m. m = 0) mf"
  shows "dLoss_step da N lf mf d = replicate n (replicate V 0)"
proof (rule nth_equalityI)
  show "length (dLoss_step da N lf mf d) = length (replicate n (replicate V (0::real)))"
    using assms by (simp add: dLoss_step_length is_mat_length)
next
  fix k assume "k < length (dLoss_step da N lf mf d)"
  then have k: "k < n" using assms by (simp add: dLoss_step_length is_mat_length)
  have "mf ! k = 0" using assms(3,4) k by (simp add: list_all_length)
  then have "dLoss_step da N lf mf d ! k = replicate V 0"
    unfolding dLoss_step_row [OF is_mat_length [OF assms(1)] assms(2,3) k]
    using is_mat_nth [OF assms(1) k] by (simp add: map_replicate_const)
  then show "dLoss_step da N lf mf d ! k = replicate n (replicate V 0) ! k"
    using k by simp
qed

lemma twice_differs:
  fixes p :: real
  assumes "0 < p" "0 < N"
  shows "(if da then ((if da then (p - 1) / real N else p - 1) * 1 - 1) / real N
          else (if da then (p - 1) / real N else p - 1) * 1 - 1) * 1 \<noteq>
         (if da then (p - 1) / real N else p - 1) * 1"
proof (cases da)
  case False
  then show ?thesis by simp
next
  case True
  have "((p - 1) / real N - 1) / real N \<noteq> (p - 1) / real N"
  proof
    assume "((p - 1) / real N - 1) / real N = (p - 1) / real N"
    then have "(p - 1) / real N - 1 = p - 1"
      using assms(2) by simp
    then have "p - 1 - real N = (p - 1) * real N"
      using assms(2) by (simp add: field_simps)
    then have "p * (1 - real N) = 1"
      by (simp add: algebra_simps)
    moreover have "p * (1 - real N) \<le> 0"
      using assms by (simp add: mult_le_0_iff)
    ultimately show False by simp
  qed
  then show ?thesis using True by simp
qed

lemma backward_run:
  assumes "0 < N" "0 < T" "is_mat N T lbl" "is_mat N T msk" "is_mat (N * T) V d"
    and "list_all (list_all (\<lambda>j. 0 \<le> j \<and> j < int V)) lbl"
    and "label s = Some lbl" "mask' s = Some msk" "dLoss s = Some d"
  shows "temporal_softmax_loss_backward s =
           Inr (reshape_rows N T (dLoss_step (dim_average s) N (concat lbl) (concat msk) d),
                s\<lparr>dLoss := Some (dLoss_step (dim_average s) N (concat lbl) (concat msk) d)\<rparr>)"
proof -
  have N: "length lbl = N" using assms(3) by (rule is_mat_length)
  have T: "dim1 lbl = T" using is_mat_dim1 [OF assms(3,1)] .
  have NT: "0 < N * T" using assms(1,2) by simp
  have V: "dim1 d = V" using is_mat_dim1 [OF assms(5) NT] .
  have l1: "length (concat lbl) = N * T" using assms(3) by (rule concat_length)
  have l2: "length (concat msk) = N * T" using assms(4) by (rule concat_length)
  have l3: "length d = N * T" using assms(5) by (rule is_mat_length)
  have "list_all (in_bounds V) (concat lbl)"
    unfolding list_all_length l1
    using list_all_concat_nth [OF assms(3,6)] by (simp add: in_bounds_nonneg)
  then show ?thesis
    using NT l1 l2 l3
    by (simp add: temporal_softmax_loss_backward_def assms(7,8,9) Let_def N T V)
qed

text \<open>
  C10 (as amended). After a forward on well-shaped inputs (\<open>0 < N\<close>, \<open>0 < T\<close>, class ids
  in \<open>[0, V)\<close>, a 0/1 mask), \<open>backward\<close> succeeds and leaves its result stored in
  \<open>dLoss\<close>; a second \<open>backward\<close> without a forward in between succeeds as well and
  applies the same update (subtract 1 at the labels, divide by \<open>N\<close> under
  \<open>dim_average\<close>, multiply by the mask) to the stored gradient. Its result differs from
  that of the first call exactly when some position has mask 1; with every position
  masked out both calls return the same array of zeros.
\<close>

theorem backward_twice:
  assumes "0 < N" and "0 < T" and "is_tensor3 N T V feat" and "is_mat N T lbl"
    and "is_mat N T msk"
    and "list_all (list_all (\<lambda>j. 0 \<le> j \<and> j < int V)) lbl"
    and "list_all (list_all (\<lambda>m. m = 0 \<or> m = 1)) msk"
    and "temporal_softmax_loss_forward self feat lbl msk = Inr (loss, s0)"
  shows "\<exists>g1 s1 g2 s2.
           temporal_softmax_loss_backward s0 = Inr (reshape_rows N T g1, s1) \<and>
           g1 = dLoss_step (dim_average self) N (concat lbl) (concat msk)
                  (map softmax_row (concat feat)) \<and>
           dLoss s1 = Some g1 \<and>
           temporal_softmax_loss_backward s1 = Inr (reshape_rows N T g2, s2) \<and>
           g2 = dLoss_step (dim_average self) N (concat lbl) (concat msk) g1 \<and>
           dLoss s2 = Some g2 \<and>
           (reshape_rows N T g2 \<noteq> reshape_rows N T g1 \<longleftrightarrow> list_ex (list_ex (\<lambda>m. m = 1)) msk)"
proof -
  let ?lf = "concat lbl" and ?mf = "concat msk" and ?ff = "concat feat"
  let ?P = "map softmax_row ?ff"
  let ?step = "dLoss_step (dim_average self) N ?lf ?mf"
  let ?g1 = "?step ?P" and ?g2 = "?step (?step ?P)"
  have s0: "s0 = self\<lparr>dLoss := Some ?P, label := Some lbl, mask' := Some msk\<rparr>"
    using assms(8) by (rule forward_state)
  have NT: "0 < N * T" using assms(1,2) by simp
  have ffm: "is_mat (N * T) V ?ff" using assms(3) by (rule is_tensor3_concat)
  have Pm: "is_mat (N * T) V ?P"
    using ffm by (auto simp: is_mat_def list_all_iff)
  have l1: "length ?lf = N * T" using assms(4) by (rule concat_length)
  have l2: "length ?mf = N * T" using assms(5) by (rule concat_length)
  have g1m: "is_mat (N * T) V ?g1" using Pm l1 l2 by (rule dLoss_step_is_mat)
  have g2m: "is_mat (N * T) V ?g2" using g1m l1 l2 by (rule dLoss_step_is_mat)
  define s1 where "s1 = s0\<lparr>dLoss := Some ?g1\<rparr>"
  define s2 where "s2 = s1\<lparr>dLoss := Some ?g2\<rparr>"
  have b1: "temporal_softmax_loss_backward s0 = Inr (reshape_rows N T ?g1, s1)"
    using backward_run [OF assms(1,2,4,5) Pm assms(6), of s0] by (simp add: s0 s1_def)
  have b2: "temporal_softmax_loss_backward s1 = Inr (reshape_rows N T ?g2, s2)"
    using backward_run [OF assms(1,2,4,5) g1m assms(6), of s1] by (simp add: s0 s1_def s2_def)
  have ne: "?g2 \<noteq> ?g1" if ex: "list_ex (list_ex (\<lambda>m. m = 1)) msk"
  proof -
    from ex have "list_ex (\<lambda>m. m = 1) ?mf" by (auto simp: list_ex_iff)
    then obtain k where k: "k < N * T" "?mf ! k = 1"
      unfolding list_ex_length l2 by blast
    have lab: "0 \<le> ?lf ! k" "?lf ! k < int V"
      using list_all_concat_nth [OF assms(4,6) k(1)] by simp_all
    have row: "length (?ff ! k) = V" using ffm k(1) by (rule is_mat_nth)
    have "nat (?lf ! k) < length (?ff ! k)" using lab row by linarith
    then have pos: "0 < ?P ! k ! nat (?lf ! k)"
      using k(1) ffm by (simp add: is_mat_length softmax_row_nth stable_softmax_prob_pos)
    have e1: "?g1 ! k ! nat (?lf ! k) =
        (if dim_average self then (?P ! k ! nat (?lf ! k) - 1) / real N
         else ?P ! k ! nat (?lf ! k) - 1) * 1"
      using dLoss_step_entry [OF Pm l1 l2 k(1) NT lab] k(2) by simp
    have e2: "?g2 ! k ! nat (?lf ! k) =
        (if dim_average self then (?g1 ! k ! nat (?lf ! k) - 1) / real N
         else ?g1 ! k ! nat (?lf ! k) - 1) * 1"
      using dLoss_step_entry [OF g1m l1 l2 k(1) NT lab] k(2) by simp
    have "?g2 ! k ! nat (?lf ! k) \<noteq> ?g1 ! k ! nat (?lf ! k)"
      unfolding e2 unfolding e1 using twice_differs [OF pos assms(1)] .
    then show ?thesis by auto
  qed
  have eq: "?g2 = ?g1" if nex: "\<not> list_ex (list_ex (\<lambda>m. m = 1)) msk"
  proof -
    have "list_all (\<lambda>m. m = 0) ?mf"
      using nex assms(7) by (fastforce simp: list_ex_iff list_all_iff)
    then show ?thesis
      using dLoss_step_masked [OF Pm l1 l2] dLoss_step_masked [OF g1m l1 l2] by simp
  qed
  have "reshape_rows N T ?g2 \<noteq> reshape_rows N T ?g1 \<longleftrightarrow> list_ex (list_ex (\<lambda>m. m = 1)) msk"
    using ne eq reshape_rows_inj [OF is_mat_length [OF g2m] is_mat_length [OF g1m]] by blast
  then show ?thesis
    using b1 b2 by (auto simp: s1_def s2_def)
qed

text \<open>
  The theorem on the specification's example (\<open>N = T = 1\<close>, two classes, uniform
  scores, label 0), once unmasked and once with the position masked out.
\<close>

theorem backward_twice_witness:
  "(\<exists>s0 g1 s1 g2 s2.
      temporal_softmax_loss_forward (temporal_softmax_loss_init True) [[[0, 0]]] [[0]] [[1]] =
        Inr (ln 2, s0) \<and>
      temporal_softmax_loss_backward s0 = Inr (g1, s1) \<and>
      temporal_softmax_loss_backward s1 = Inr (g2, s2) \<and> g2 \<noteq> g1) \<and>
   (\<exists>s0 g1 s1 g2 s2.
      temporal_softmax_loss_forward (temporal_softmax_loss_init True) [[[0, 0]]] [[0]] [[0]] =
        Inr (0, s0) \<and>
      temporal_softmax_loss_backward s0 = Inr (g1, s1) \<and>
      temporal_softmax_loss_backward s1 = Inr (g2, s2) \<and> g2 = g1)"
proof -
  have h: "0 < (1::nat)" "is_tensor3 1 1 2 [[[0, 0 :: real]]]" "is_mat 1 1 [[0 :: int]]"
    "list_all (list_all (\<lambda>j. 0 \<le> j \<and> j < int 2)) [[0]]"
    by (simp_all add: is_tensor3_def is_mat_def)
  have m1: "is_mat 1 1 [[1 :: real]]" "list_all (list_all (\<lambda>m. m = 0 \<or> m = 1)) [[1 :: real]]"
    and m0: "is_mat 1 1 [[0 :: real]]" "list_all (list_all (\<lambda>m. m = 0 \<or> m = 1)) [[0 :: real]]"
    by (simp_all add: is_mat_def)
  obtain s0 where f1: "temporal_softmax_loss_forward (temporal_softmax_loss_init True)
      [[[0, 0]]] [[0]] [[1]] = Inr (ln 2, s0)"
    by (simp add: temporal_softmax_loss_forward_def temporal_softmax_loss_init_def dim1_def
        dim2_def in_bounds_def py_idx_def softmax_row_def Let_def ln_div)
  obtain s0' where f0: "temporal_softmax_loss_forward (temporal_softmax_loss_init True)
      [[[0, 0]]] [[0]] [[0]] = Inr (0, s0')"
    by (simp add: temporal_softmax_loss_forward_def temporal_softmax_loss_init_def dim1_def
        dim2_def in_bounds_def py_idx_def softmax_row_def Let_def)
  from backward_twice [OF h(1) h(1) h(2) h(3) m1(1) h(4) m1(2) f1]
  have a: "\<exists>g1 s1 g2 s2. temporal_softmax_loss_backward s0 = Inr (g1, s1) \<and>
      temporal_softmax_loss_backward s1 = Inr (g2, s2) \<and> g2 \<noteq> g1"
    by (simp del: One_nat_def) blast
  from backward_twice [OF h(1) h(1) h(2) h(3) m0(1) h(4) m0(2) f0]
  obtain g1 s1 g2 s2 where r:
    "temporal_softmax_loss_backward s0' = Inr (reshape_rows 1 1 g1, s1)"
    "temporal_softmax_loss_backward s1 = Inr (reshape_rows 1 1 g2, s2)"
    "reshape_rows 1 1 g2 \<noteq> reshape_rows 1 1 g1 \<longleftrightarrow> list_ex (list_ex (\<lambda>m. m = 1)) [[0 :: real]]"
    by blast
  from r(3) have "reshape_rows 1 1 g2 = reshape_rows 1 1 g1" by simp
  with r(1,2) have b: "\<exists>g1 s1 g2 s2. temporal_softmax_loss_backward s0' = Inr (g1, s1) \<and>
      temporal_softmax_loss_backward s1 = Inr (g2, s2) \<and> g2 = g1"
    by metis
  show ?thesis using f1 f0 a b by blast
qed

text \<open>
  C10 as the claim words it fails when every position is masked out: the second
  \<open>backward\<close> returns the same value as the first (all zeros).
\<close>

theorem backward_twice_counterexample:
  "(case temporal_softmax_loss_forward (temporal_softmax_loss_init True) [[[0, 0]]] [[0]] [[0]] of
      Inl e \<Rightarrow> False
    | Inr (loss, s0) \<Rightarrow>
        (case temporal_softmax_loss_backward s0 of
           Inl e \<Rightarrow> False
         | Inr (g1, s1) \<Rightarrow>
             (case temporal_softmax_loss_backward s1 of
                Inl e \<Rightarrow> False
              | Inr (g2, s2) \<Rightarrow> g2 = g1 \<and> g1 = [[[0, 0]]])))"
  by (simp add: temporal_softmax_loss_forward_def temporal_softmax_loss_init_def
      temporal_softmax_loss_backward_def dLoss_step_def subtract_at_labels_def divide_by_def
      times_mask_def reshape_rows_def dim1_def dim2_def in_bounds_def py_idx_def softmax_row_def
      Let_def)

text \<open>
  C2. On a unit that never ran \<open>forward\<close>, \<open>backward\<close> does not reach the check of
  line 618: line 616 reads \<^verbatim>\<open>self.label.shape\<close> with \<open>label\<close> still \<^verbatim>\<open>None\<close> and raises
  \<^verbatim>\<open>AttributeError\<close>, not the missing-forward-state \<open>ValueError\<close>.
\<close>

theorem backward_before_forward:
  "temporal_softmax_loss_backward (temporal_softmax_loss_init da) = Inl AttributeError \<and>
   temporal_softmax_loss_backward (temporal_softmax_loss_init da) \<noteq> Inl no_forward"
  by (simp add: temporal_softmax_loss_backward_def temporal_softmax_loss_init_def no_forward_def)

section \<open>Shapes and entries of the matrix operations\<close>

lemma is_matI:
  "length A = n \<Longrightarrow> (\<And>i. i < n \<Longrightarrow> length (A ! i) = m) \<Longrightarrow> is_mat n m A"
  by (simp add: is_mat_def list_all_length)

lemma mT_is_mat: "is_mat n m A \<Longrightarrow> 0 < n \<Longrightarrow> is_mat m n (mT A)"
  by (rule is_matI) (simp_all add: mT_def is_mat_dim1 is_mat_length)

lemma mT_nth:
  "is_mat n m A \<Longrightarrow> 0 < n \<Longrightarrow> j < m \<Longrightarrow> i < n \<Longrightarrow> mT A ! j ! i = A ! i ! j"
  by (simp add: mT_def is_mat_dim1 is_mat_length)

lemma dot_is_mat:
  assumes "is_mat n k A" "is_mat k m B" "0 < k"
  shows "is_mat n m (dot A B)"
proof (rule is_matI)
  show "length (dot A B) = n" using assms(1) by (simp add: dot_def is_mat_length)
  fix i assume "i < n"
  then show "length (dot A B ! i) = m"
    using assms(1) is_mat_length [OF mT_is_mat [OF assms(2,3)]]
    by (simp add: dot_def is_mat_length)
qed

lemma dot_nth:
  assumes "is_mat n k A" "is_mat k m B" "0 < k" "i < n" "j < m"
  shows "dot A B ! i ! j = (\<Sum>l<k. A ! i ! l * B ! l ! j)"
proof -
  have t: "is_mat m k (mT B)" using assms(2,3) by (rule mT_is_mat)
  have la: "length (A ! i) = k" using assms(1,4) by (rule is_mat_nth)
  have lb: "length (mT B ! j) = k" using t assms(5) by (rule is_mat_nth)
  have "dot A B ! i ! j = sum_list (map2 (*) (A ! i) (mT B ! j))"
    using assms(1,4,5) t by (simp add: dot_def is_mat_length)
  also have "\<dots> = (\<Sum>l<k. A ! i ! l * mT B ! j ! l)"
    using la lb by (simp add: sum_list_nth)
  also have "\<dots> = (\<Sum>l<k. A ! i ! l * B ! l ! j)"
    using mT_nth [OF assms(2,3,5)] by (intro sum.cong) auto
  finally show ?thesis .
qed

lemma mat_add_is_mat: "is_mat n m A \<Longrightarrow> is_mat n m B \<Longrightarrow> is_mat n m (mat_add A B)"
  by (rule is_matI) (simp_all add: mat_add_def vec_add_def is_mat_length is_mat_nth)

lemma mat_add_nth:
  "is_mat n m A \<Longrightarrow> is_mat n m B \<Longrightarrow> i < n \<Longrightarrow> j < m \<Longrightarrow>
     mat_add A B ! i ! j = A ! i ! j + B ! i ! j"
  by (simp add: mat_add_def vec_add_def is_mat_length is_mat_nth)

lemma mat_mul_is_mat: "is_mat n m A \<Longrightarrow> is_mat n m B \<Longrightarrow> is_mat n m (mat_mul A B)"
  by (rule is_matI) (simp_all add: mat_mul_def is_mat_length is_mat_nth)

lemma mat_mul_nth:
  "is_mat n m A \<Longrightarrow> is_mat n m B \<Longrightarrow> i < n \<Longrightarrow> j < m \<Longrightarrow>
     mat_mul A B ! i ! j = A ! i ! j * B ! i ! j"
  by (simp add: mat_mul_def is_mat_length is_mat_nth)

lemma map_map_is_mat: "is_mat n m A \<Longrightarrow> is_mat n m (map (map f) A)"
  by (rule is_matI) (simp_all add: is_mat_length is_mat_nth)

lemma map_map_nth:
  "is_mat n m A \<Longrightarrow> i < n \<Longrightarrow> j < m \<Longrightarrow> map (map f) A ! i ! j = f (A ! i ! j)"
  by (simp add: is_mat_length is_mat_nth)

lemma add_row_vec_is_mat:
  "is_mat n m A \<Longrightarrow> length b = m \<Longrightarrow> is_mat n m (add_row_vec A b)"
  by (rule is_matI) (simp_all add: add_row_vec_def vec_add_def is_mat_length is_mat_nth)

lemma add_row_vec_nth:
  "is_mat n m A \<Longrightarrow> length b = m \<Longrightarrow> i < n \<Longrightarrow> j < m \<Longrightarrow>
     add_row_vec A b ! i ! j = A ! i ! j + b ! j"
  by (simp add: add_row_vec_def vec_add_def is_mat_length is_mat_nth)

lemma col_sum_length: "is_mat n m A \<Longrightarrow> 0 < n \<Longrightarrow> length (col_sum A) = m"
  using is_mat_length [OF mT_is_mat] by (simp add: col_sum_def)

lemma col_sum_nth:
  assumes "is_mat n m A" "0 < n" "j < m"
  shows "col_sum A ! j = (\<Sum>i<n. A ! i ! j)"
proof -
  have t: "is_mat m n (mT A)" using assms(1,2) by (rule mT_is_mat)
  have "col_sum A ! j = sum_list (mT A ! j)"
    using t assms(3) by (simp add: col_sum_def is_mat_length)
  also have "\<dots> = (\<Sum>i<n. mT A ! j ! i)"
    using is_mat_nth [OF t assms(3)] by (simp add: sum_list_nth)
  also have "\<dots> = (\<Sum>i<n. A ! i ! j)"
    using mT_nth [OF assms] by (intro sum.cong) auto
  finally show ?thesis .
qed

lemma zeros_is_mat: "is_mat n m (zeros n m)"
  by (rule is_matI) (simp_all add: zeros_def)

lemma zeros_nth: "i < n \<Longrightarrow> j < m \<Longrightarrow> zeros n m ! i ! j = 0"
  by (simp add: zeros_def)

lemma zeros3_is_tensor3: "is_tensor3 n t d (zeros3 n t d)"
  by (simp add: is_tensor3_def zeros3_def list_all_length zeros_is_mat)

lemma slice_time_is_mat:
  "is_tensor3 n t d x \<Longrightarrow> i < t \<Longrightarrow> is_mat n d (slice_time x i)"
  by (rule is_matI)
    (simp_all add: slice_time_def is_tensor3_length is_mat_nth [OF is_tensor3_nth])

lemma slice_time_nth:
  "is_tensor3 n t d x \<Longrightarrow> k < n \<Longrightarrow> slice_time x i ! k = x ! k ! i"
  by (simp add: slice_time_def is_tensor3_length)

lemma set_time_is_tensor3:
  assumes "is_tensor3 n t d x" "is_mat n d v" "i < t"
  shows "is_tensor3 n t d (set_time x i v)"
  unfolding is_tensor3_def list_all_length
proof (intro conjI allI impI)
  show len: "length (set_time x i v) = n"
    using assms by (simp add: set_time_def is_tensor3_length is_mat_length)
  fix k assume "k < length (set_time x i v)"
  then have k: "k < n" using len by simp
  have r: "set_time x i v ! k = (x ! k)[i := v ! k]"
    using assms k by (simp add: set_time_def is_tensor3_length is_mat_length)
  show "is_mat t d (set_time x i v ! k)"
    unfolding r using is_tensor3_nth [OF assms(1) k] is_mat_nth [OF assms(2) k] assms(3)
    by (auto simp: is_mat_def list_all_length nth_list_update)
qed

lemma set_time_nth:
  assumes "is_tensor3 n t d x" "is_mat n d v" "k < n"
  shows "set_time x i v ! k = (x ! k)[i := v ! k]"
  using assms by (simp add: set_time_def is_tensor3_length is_mat_length)

lemma cols_is_mat:
  "is_mat n m A \<Longrightarrow> b \<le> m \<Longrightarrow> is_mat n (b - a) (cols a b A)"
  by (rule is_matI) (auto simp: cols_def is_mat_length is_mat_nth)

lemma cols_nth:
  "is_mat n m A \<Longrightarrow> b \<le> m \<Longrightarrow> i < n \<Longrightarrow> j < b - a \<Longrightarrow> cols a b A ! i ! j = A ! i ! (a + j)"
  by (simp add: cols_def is_mat_length is_mat_nth)

lemma block_le: "i < n \<Longrightarrow> i * t + t \<le> n * (t::nat)"
  by (metis Suc_leI mult_Suc mult_le_mono1 add.commute)

lemma block_start_le: "i < n \<Longrightarrow> i * t \<le> n * (t::nat)"
  by (simp add: mult_le_mono1)




lemma reshape_rows_is_tensor3:
  assumes "is_mat (n * t) d A"
  shows "is_tensor3 n t d (reshape_rows n t A)"
  unfolding is_tensor3_def list_all_length
proof (intro conjI allI impI)
  show "length (reshape_rows n t A) = n" by (simp add: reshape_rows_def)
  fix i assume "i < length (reshape_rows n t A)"
  then have i: "i < n" by (simp add: reshape_rows_def)
  have le: "i * t + t \<le> n * t"
    using i by (metis Suc_leI mult_Suc mult_le_mono1 add.commute)
  have r: "reshape_rows n t A ! i = take t (drop (i * t) A)"
    using i by (simp add: reshape_rows_def)
  show "is_mat t d (reshape_rows n t A ! i)"
    unfolding r
  proof (rule is_matI)
    show "length (take t (drop (i * t) A)) = t"
      using le is_mat_length [OF assms] by simp
    fix j assume j: "j < t"
    then have "i * t + j < n * t" using le by simp
    moreover have "i * t \<le> length A"
      using block_start_le [OF i] is_mat_length [OF assms] by simp
    ultimately show "length (take t (drop (i * t) A) ! j) = d"
      using j is_mat_nth [OF assms, of "i * t + j"] by (simp add: nth_drop)
  qed
qed

lemma reshape_rows_nth:
  assumes "length A = n * t" "i < n" "j < t"
  shows "reshape_rows n t A ! i ! j = A ! (i * t + j)"
proof -
  have "i * t + t \<le> n * t"
    using assms(2) by (metis Suc_leI mult_Suc mult_le_mono1 add.commute)
  moreover have "i * t \<le> length A" using assms(1) block_start_le [OF assms(2)] by simp
  ultimately show ?thesis using assms by (simp add: reshape_rows_def nth_drop)
qed

section \<open>The temporal fully-connected layer\<close>

lemma mat_eqI:
  assumes "is_mat n m A" "is_mat n m B"
    and "\<And>i j. i < n \<Longrightarrow> j < m \<Longrightarrow> A ! i ! j = B ! i ! j"
  shows "A = B"
proof (rule nth_equalityI)
  show "length A = length B" using assms(1,2) by (simp add: is_mat_length)
next
  fix i assume "i < length A"
  then have i: "i < n" using assms(1) by (simp add: is_mat_length)
  show "A ! i = B ! i"
  proof (rule nth_equalityI)
    show "length (A ! i) = length (B ! i)"
      using is_mat_nth [OF assms(1) i] is_mat_nth [OF assms(2) i] by simp
  next
    fix j assume "j < length (A ! i)"
    then have "j < m" using is_mat_nth [OF assms(1) i] by simp
    then show "A ! i ! j = B ! i ! j" using assms(3) i by simp
  qed
qed




section \<open>The word embedding\<close>

lemma py_idx_less: "in_bounds V j \<Longrightarrow> py_idx V j < V"
  by (auto simp: in_bounds_def py_idx_def)

lemma add_at_sum:
  assumes "is_mat V D g"
    and "list_all (\<lambda>(j, row). in_bounds V j \<and> length row = D) ps"
  shows "\<exists>g'. add_at g ps = Inr g' \<and> is_mat V D g' \<and>
           (\<forall>v<V. \<forall>d<D. g' ! v ! d =
              g ! v ! d + sum_list (map (\<lambda>(j, row). if py_idx V j = v then row ! d else 0) ps))"
  using assms
proof (induction ps arbitrary: g)
  case Nil
  then show ?case by simp
next
  case (Cons p ps)
  obtain j row where p: "p = (j, row)" by (cases p)
  have j: "in_bounds V j" and row: "length row = D"
    and rest: "list_all (\<lambda>(j, row). in_bounds V j \<and> length row = D) ps"
    using Cons.prems(2) p by simp_all
  have V: "length g = V" using Cons.prems(1) by (rule is_mat_length)
  let ?i = "py_idx V j"
  let ?g1 = "g[?i := vec_add (g ! ?i) row]"
  have i: "?i < V" using j by (rule py_idx_less)
  have g1: "is_mat V D ?g1"
  proof (rule is_matI)
    show "length ?g1 = V" using V by simp
    fix k assume "k < V"
    then show "length (?g1 ! k) = D"
      using is_mat_nth [OF Cons.prems(1)] V row i
      by (auto simp: nth_list_update vec_add_def)
  qed
  have e1: "?g1 ! v ! d = g ! v ! d + (if ?i = v then row ! d else 0)"
    if "v < V" "d < D" for v d
    using that V row i is_mat_nth [OF Cons.prems(1) that(1)]
    by (auto simp: nth_list_update vec_add_def)
  from Cons.IH [OF g1 rest] obtain g' where g': "add_at ?g1 ps = Inr g'" "is_mat V D g'"
    "\<forall>v<V. \<forall>d<D. g' ! v ! d =
        ?g1 ! v ! d + sum_list (map (\<lambda>(j, row). if py_idx V j = v then row ! d else 0) ps)"
    by blast
  have "add_at g (p # ps) = Inr g'"
    using g'(1) j V by (simp add: p)
  moreover have "\<forall>v<V. \<forall>d<D. g' ! v ! d =
      g ! v ! d + sum_list (map (\<lambda>(j, row). if py_idx V j = v then row ! d else 0) (p # ps))"
    using g'(3) e1 by (simp add: p)
  ultimately show ?case using g'(2) by blast
qed

lemma word_embedding_forward_Inr:
  "word_embedding_forward self x = Inr (out, self1) \<Longrightarrow>
     list_all (list_all (in_bounds (length (we_w self)))) x \<and>
     we_meta self1 = Some (out, x) \<and> we_w self1 = we_w self"
  by (auto simp: word_embedding_forward_def Let_def split: if_splits)

text \<open>
  C6. After a forward on an index array \<open>x\<close> of shape \<open>(N, T)\<close> over a table of shape
  \<open>(V, D)\<close>, \<open>backward\<close> on \<open>dout\<close> of shape \<open>(N, T, D)\<close> stores a gradient table of shape
  \<open>(V, D)\<close> whose row \<open>v\<close> is the sum of the rows of \<open>dout\<close> at the positions where \<open>x\<close>
  names row \<open>v\<close>: an index that occurs \<open>k\<close> times collects \<open>k\<close> rows, and a row no index
  names is zero.
\<close>

theorem word_embedding_backward_scatter_add:
  assumes "0 < V" and "is_mat V D (we_w self)" and "is_mat N T x"
    and "is_tensor3 N T D dout"
    and "word_embedding_forward self x = Inr (out, self1)"
  shows "\<exists>self2 G. word_embedding_backward self1 dout = Inr self2 \<and>
           we_grad_w self2 = Some G \<and> is_mat V D G \<and>
           (\<forall>v<V. \<forall>d<D. G ! v ! d =
              (\<Sum>n<N. \<Sum>t<T. if py_idx V (x ! n ! t) = v then dout ! n ! t ! d else 0))"
proof -
  let ?cx = "concat x" and ?cd = "concat dout"
  let ?ps = "zip ?cx ?cd"
  have V: "length (we_w self) = V" using assms(2) by (rule is_mat_length)
  have D: "dim1 (we_w self) = D" using is_mat_dim1 [OF assms(2,1)] .
  from word_embedding_forward_Inr [OF assms(5)]
  have inb: "list_all (list_all (in_bounds V)) x" and meta: "we_meta self1 = Some (out, x)"
    and w: "we_w self1 = we_w self"
    by (simp_all add: V)
  have lx: "length ?cx = N * T" using assms(3) by (rule concat_length)
  have cd: "is_mat (N * T) D ?cd" using assms(4) by (rule is_tensor3_concat)
  have ld: "length ?cd = N * T" using cd by (rule is_mat_length)
  have ok: "list_all (\<lambda>(j, row). in_bounds V j \<and> length row = D) ?ps"
    unfolding list_all_length
    using lx ld list_all_concat_nth [OF assms(3) inb] is_mat_nth [OF cd] by simp
  from add_at_sum [OF zeros_is_mat ok] obtain G where G: "add_at (zeros V D) ?ps = Inr G"
    "is_mat V D G"
    "\<forall>v<V. \<forall>d<D. G ! v ! d = zeros V D ! v ! d +
        sum_list (map (\<lambda>(j, row). if py_idx V j = v then row ! d else 0) ?ps)"
    by blast
  have entry: "G ! v ! d =
      (\<Sum>n<N. \<Sum>t<T. if py_idx V (x ! n ! t) = v then dout ! n ! t ! d else 0)"
    if v: "v < V" and d: "d < D" for v d
  proof -
    have "G ! v ! d = sum_list (map (\<lambda>(j, row). if py_idx V j = v then row ! d else 0) ?ps)"
      using G(3) v d by (simp add: zeros_nth)
    also have "\<dots> = (\<Sum>k<N * T. if py_idx V (?cx ! k) = v then ?cd ! k ! d else 0)"
      unfolding sum_list_nth using lx ld by (intro sum.cong) auto
    also have "\<dots> = (\<Sum>n<N. \<Sum>t<T. if py_idx V (?cx ! (n * T + t)) = v
                                     then ?cd ! (n * T + t) ! d else 0)"
      by (rule sum_flat)
    also have "\<dots> = (\<Sum>n<N. \<Sum>t<T. if py_idx V (x ! n ! t) = v then dout ! n ! t ! d else 0)"
      using concat_nth [OF assms(3)] concat_nth [OF is_tensor3_outer [OF assms(4)]]
      by (intro sum.cong refl) simp
    finally show ?thesis .
  qed
  have "word_embedding_backward self1 dout = Inr (self1\<lparr>we_grad_w := Some G\<rparr>)"
    using G(1) by (simp add: word_embedding_backward_def meta w V D)
  then show ?thesis using G(2) entry by simp
qed

text \<open>
  The theorem on the specification's example \<open>x = [[0, 1, 0]]\<close> over a table of three
  rows: row 0 of the gradient is the sum of the first and third row of \<open>dout\<close>, row 1
  is the second, row 2 is zero.
\<close>

theorem word_embedding_backward_scatter_add_witness:
  "\<exists>out self1 self2.
     word_embedding_forward \<lparr>we_w = [[1, 2], [3, 4], [5, 6]], we_grad_w = None, we_meta = None\<rparr>
       [[0, 1, 0]] = Inr (out, self1) \<and>
     word_embedding_backward self1 [[[1, 2], [3, 4], [5, 6]]] = Inr self2 \<and>
     we_grad_w self2 = Some [[6, 8], [3, 4], [0, 0]]"
proof -
  let ?self = "\<lparr>we_w = [[1, 2], [3, 4], [5, 6 :: real]], we_grad_w = None, we_meta = None\<rparr>"
  let ?x = "[[0, 1, 0 :: int]]" and ?dout = "[[[1, 2], [3, 4], [5, 6 :: real]]]"
  have h: "0 < (3::nat)" "is_mat 3 2 (we_w ?self)" "is_mat 1 3 ?x" "is_tensor3 1 3 2 ?dout"
    by (simp_all add: is_tensor3_def is_mat_def)
  obtain out self1 where f: "word_embedding_forward ?self ?x = Inr (out, self1)"
    by (simp add: word_embedding_forward_def in_bounds_def Let_def)
  from word_embedding_backward_scatter_add [OF h f]
  obtain self2 G where r: "word_embedding_backward self1 ?dout = Inr self2"
    "we_grad_w self2 = Some G" "is_mat 3 2 G"
    "\<forall>v<3. \<forall>d<2. G ! v ! d =
        (\<Sum>n<1. \<Sum>t<3. if py_idx 3 (?x ! n ! t) = v then ?dout ! n ! t ! d else 0)"
    by blast
  have three: "{..<3::nat} = {0, 1, 2}" and two: "{..<2::nat} = {0, 1}" by auto
  have "G = [[6, 8], [3, 4], [0, 0]]"
  proof (rule mat_eqI [OF r(3)])
    show "is_mat 3 2 [[6, 8], [3, 4], [0, 0 :: real]]" by (simp add: is_mat_def)
    fix i j :: nat assume "i < 3" "j < 2"
    then have c: "i \<in> {0, 1, 2}" "j \<in> {0, 1}" by auto
    have "G ! i ! j = (\<Sum>n<1. \<Sum>t<3. if py_idx 3 (?x ! n ! t) = i then ?dout ! n ! t ! j else 0)"
      using r(4) \<open>i < 3\<close> \<open>j < 2\<close> by blast
    then show "G ! i ! j = [[6, 8], [3, 4], [0, 0]] ! i ! j"
      using c by (auto simp: three py_idx_def)
  qed
  then show ?thesis using f r(1,2) by blast
qed

section \<open>The LSTM step\<close>

lemma sigmoid_logistic: "sigmoid z = 1 / (1 + exp (- z))"
proof (cases "0 \<le> z")
  case True
  then show ?thesis by (simp add: sigmoid_def)
next
  case False
  have "exp z / (1 + exp z) = 1 / (1 + exp (- z))"
    by (simp add: exp_minus field_simps)
  then show ?thesis using False by (simp add: sigmoid_def)
qed

text \<open>
  C4. For \<open>x\<close> of shape \<open>(N, D)\<close>, \<open>prev_h\<close> and \<open>prev_c\<close> of shape \<open>(N, H)\<close> and parameters
  of shapes \<open>(D, 4H)\<close>, \<open>(H, 4H)\<close> and \<open>(4H)\<close>, \<open>step_forward\<close> returns \<open>next_h\<close>, \<open>next_c\<close>
  and the nine-entry meta \<open>(x, prev_h, next_h, prev_c, i, f, next_c, o, g)\<close>, all gates of
  shape \<open>(N, H)\<close>, where \<open>i\<close>, \<open>f\<close>, \<open>o\<close> are the sigmoid of the first, second and third
  \<open>H\<close>-wide block of \<open>A = x \<cdot> Wx + prev_h \<cdot> Wh + b\<close>, \<open>g\<close> is the tanh of the fourth,
  \<open>next_c = f * prev_c + i * g\<close> and \<open>next_h = o * tanh next_c\<close>; the two-branch
  \<open>sigmoid\<close> is the logistic function.
\<close>

theorem LSTM_step_forward_gates:
  assumes "0 < D" and "0 < H" and "is_mat N D x" and "is_mat N H prev_h"
    and "is_mat N H prev_c" and "is_mat D (4 * H) (lstm_wx self)"
    and "is_mat H (4 * H) (lstm_wh self)" and "length (lstm_b self) = 4 * H"
    and "h_dim self = H"
  shows "\<exists>i_t f_t o_t g_t next_h next_c.
           LSTM_step_forward self x prev_h prev_c =
             (next_h, next_c, (x, prev_h, next_h, prev_c, i_t, f_t, next_c, o_t, g_t)) \<and>
           is_mat N H i_t \<and> is_mat N H f_t \<and> is_mat N H o_t \<and> is_mat N H g_t \<and>
           is_mat N H next_c \<and> is_mat N H next_h \<and>
           (\<forall>n<N. \<forall>j<H.
              i_t ! n ! j = sigmoid (lstm_affine self D H x prev_h n j) \<and>
              f_t ! n ! j = sigmoid (lstm_affine self D H x prev_h n (H + j)) \<and>
              o_t ! n ! j = sigmoid (lstm_affine self D H x prev_h n (2 * H + j)) \<and>
              g_t ! n ! j = tanh (lstm_affine self D H x prev_h n (3 * H + j)) \<and>
              next_c ! n ! j = f_t ! n ! j * prev_c ! n ! j + i_t ! n ! j * g_t ! n ! j \<and>
              next_h ! n ! j = o_t ! n ! j * tanh (next_c ! n ! j)) \<and>
           (\<forall>z. sigmoid z = 1 / (1 + exp (- z)))"
proof -
  define A where "A = add_row_vec (mat_add (dot x (lstm_wx self)) (dot prev_h (lstm_wh self)))
                        (lstm_b self)"
  define i_t where "i_t = map (map sigmoid) (cols 0 H A)"
  define f_t where "f_t = map (map sigmoid) (cols H (2 * H) A)"
  define o_t where "o_t = map (map sigmoid) (cols (2 * H) (3 * H) A)"
  define g_t where "g_t = map (map tanh) (cols (3 * H) (4 * H) A)"
  define c_t where "c_t = mat_add (mat_mul f_t prev_c) (mat_mul i_t g_t)"
  define h_t where "h_t = mat_mul o_t (map (map tanh) c_t)"
  have run: "LSTM_step_forward self x prev_h prev_c =
               (h_t, c_t, (x, prev_h, h_t, prev_c, i_t, f_t, c_t, o_t, g_t))"
    by (simp add: LSTM_step_forward_def Let_def assms(9) A_def i_t_def f_t_def o_t_def g_t_def
        c_t_def h_t_def)
  have d1: "is_mat N (4 * H) (dot x (lstm_wx self))"
    using assms(3,6,1) by (rule dot_is_mat)
  have d2: "is_mat N (4 * H) (dot prev_h (lstm_wh self))"
    using assms(4,7,2) by (rule dot_is_mat)
  have s: "is_mat N (4 * H) (mat_add (dot x (lstm_wx self)) (dot prev_h (lstm_wh self)))"
    using d1 d2 by (rule mat_add_is_mat)
  have Am: "is_mat N (4 * H) A"
    unfolding A_def using s assms(8) by (rule add_row_vec_is_mat)
  have Ae: "A ! n ! k = lstm_affine self D H x prev_h n k" if "n < N" "k < 4 * H" for n k
    unfolding A_def lstm_affine_def
    using add_row_vec_nth [OF s assms(8) that] mat_add_nth [OF d1 d2 that]
      dot_nth [OF assms(3,6,1) that] dot_nth [OF assms(4,7,2) that]
    by simp
  have ci: "is_mat N H (cols 0 H A)" using cols_is_mat [OF Am, of H 0] by simp
  have cf: "is_mat N H (cols H (2 * H) A)" using cols_is_mat [OF Am, of "2 * H" H] by simp
  have co: "is_mat N H (cols (2 * H) (3 * H) A)"
    using cols_is_mat [OF Am, of "3 * H" "2 * H"] by simp
  have cg: "is_mat N H (cols (3 * H) (4 * H) A)"
    using cols_is_mat [OF Am, of "4 * H" "3 * H"] by simp
  have im: "is_mat N H i_t" unfolding i_t_def using ci by (rule map_map_is_mat)
  have fm: "is_mat N H f_t" unfolding f_t_def using cf by (rule map_map_is_mat)
  have om: "is_mat N H o_t" unfolding o_t_def using co by (rule map_map_is_mat)
  have gm: "is_mat N H g_t" unfolding g_t_def using cg by (rule map_map_is_mat)
  have fc: "is_mat N H (mat_mul f_t prev_c)" using fm assms(5) by (rule mat_mul_is_mat)
  have ig: "is_mat N H (mat_mul i_t g_t)" using im gm by (rule mat_mul_is_mat)
  have cm: "is_mat N H c_t" unfolding c_t_def using fc ig by (rule mat_add_is_mat)
  have tc: "is_mat N H (map (map tanh) c_t)" using cm by (rule map_map_is_mat)
  have hm: "is_mat N H h_t" unfolding h_t_def using om tc by (rule mat_mul_is_mat)
  have entries: "i_t ! n ! j = sigmoid (lstm_affine self D H x prev_h n j) \<and>
              f_t ! n ! j = sigmoid (lstm_affine self D H x prev_h n (H + j)) \<and>
              o_t ! n ! j = sigmoid (lstm_affine self D H x prev_h n (2 * H + j)) \<and>
              g_t ! n ! j = tanh (lstm_affine self D H x prev_h n (3 * H + j)) \<and>
              c_t ! n ! j = f_t ! n ! j * prev_c ! n ! j + i_t ! n ! j * g_t ! n ! j \<and>
              h_t ! n ! j = o_t ! n ! j * tanh (c_t ! n ! j)"
    if n: "n < N" and j: "j < H" for n j
  proof (intro conjI)
    have "i_t ! n ! j = sigmoid (cols 0 H A ! n ! j)"
      unfolding i_t_def using ci n j by (rule map_map_nth)
    also have "cols 0 H A ! n ! j = A ! n ! (0 + j)"
      using cols_nth [OF Am, of H n j 0] n j by simp
    finally show "i_t ! n ! j = sigmoid (lstm_affine self D H x prev_h n j)"
      using Ae [OF n, of j] j by simp
    have "f_t ! n ! j = sigmoid (cols H (2 * H) A ! n ! j)"
      unfolding f_t_def using cf n j by (rule map_map_nth)
    also have "cols H (2 * H) A ! n ! j = A ! n ! (H + j)"
      using cols_nth [OF Am, of "2 * H" n j H] n j by simp
    finally show "f_t ! n ! j = sigmoid (lstm_affine self D H x prev_h n (H + j))"
      using Ae [OF n, of "H + j"] j by simp
    have "o_t ! n ! j = sigmoid (cols (2 * H) (3 * H) A ! n ! j)"
      unfolding o_t_def using co n j by (rule map_map_nth)
    also have "cols (2 * H) (3 * H) A ! n ! j = A ! n ! (2 * H + j)"
      using cols_nth [OF Am, of "3 * H" n j "2 * H"] n j by simp
    finally show "o_t ! n ! j = sigmoid (lstm_affine self D H x prev_h n (2 * H + j))"
      using Ae [OF n, of "2 * H + j"] j by simp
    have "g_t ! n ! j = tanh (cols (3 * H) (4 * H) A ! n ! j)"
      unfolding g_t_def using cg n j by (rule map_map_nth)
    also have "cols (3 * H) (4 * H) A ! n ! j = A ! n ! (3 * H + j)"
      using cols_nth [OF Am, of "4 * H" n j "3 * H"] n j by simp
    finally show "g_t ! n ! j = tanh (lstm_affine self D H x prev_h n (3 * H + j))"
      using Ae [OF n, of "3 * H + j"] j by simp
    show "c_t ! n ! j = f_t ! n ! j * prev_c ! n ! j + i_t ! n ! j * g_t ! n ! j"
      unfolding c_t_def
      using mat_add_nth [OF fc ig n j] mat_mul_nth [OF fm assms(5) n j]
        mat_mul_nth [OF im gm n j]
      by simp
    show "h_t ! n ! j = o_t ! n ! j * tanh (c_t ! n ! j)"
      unfolding h_t_def
      using mat_mul_nth [OF om tc n j] map_map_nth [OF cm n j, of tanh] by simp
  qed
  have all: "\<forall>n<N. \<forall>j<H.
              i_t ! n ! j = sigmoid (lstm_affine self D H x prev_h n j) \<and>
              f_t ! n ! j = sigmoid (lstm_affine self D H x prev_h n (H + j)) \<and>
              o_t ! n ! j = sigmoid (lstm_affine self D H x prev_h n (2 * H + j)) \<and>
              g_t ! n ! j = tanh (lstm_affine self D H x prev_h n (3 * H + j)) \<and>
              c_t ! n ! j = f_t ! n ! j * prev_c ! n ! j + i_t ! n ! j * g_t ! n ! j \<and>
              h_t ! n ! j = o_t ! n ! j * tanh (c_t ! n ! j)"
    using entries by (intro allI impI)
  have sg: "\<forall>z. sigmoid z = 1 / (1 + exp (- z))"
    using sigmoid_logistic by (intro allI)
  show ?thesis
    by (intro exI [of _ i_t] exI [of _ f_t] exI [of _ o_t] exI [of _ g_t] exI [of _ h_t]
        exI [of _ c_t] conjI run im fm om gm cm hm all sg)
qed

text \<open>
  The theorem with one input feature and one hidden unit, all parameters and inputs
  zero but \<open>prev_c = [[1]]\<close>: the three gates are \<open>1/2\<close>, the candidate is \<open>0\<close>, the new
  cell state is \<open>1/2\<close> and the hidden state \<open>tanh (1/2) / 2\<close>.
\<close>

theorem LSTM_step_forward_gates_witness:
  "\<exists>next_h next_c meta.
     LSTM_step_forward \<lparr>lstm_wx = [[0, 0, 0, 0]], lstm_wh = [[0, 0, 0, 0]],
                        lstm_b = [0, 0, 0, 0], h_dim = 1\<rparr> [[0]] [[0]] [[1]] =
       (next_h, next_c, meta) \<and>
     next_c ! 0 ! 0 = 1 / 2 \<and> next_h ! 0 ! 0 = tanh (1 / 2) / 2"
proof -
  let ?self = "\<lparr>lstm_wx = [[0, 0, 0, 0]], lstm_wh = [[0, 0, 0, 0]],
                 lstm_b = [0, 0, 0, 0], h_dim = 1\<rparr>"
  have h: "0 < (1::nat)" "is_mat 1 1 [[0 :: real]]" "is_mat 1 1 [[1 :: real]]"
    "is_mat 1 (4 * 1) (lstm_wx ?self)" "is_mat 1 (4 * 1) (lstm_wh ?self)"
    "length (lstm_b ?self) = 4 * 1" "h_dim ?self = 1"
    by (simp_all add: is_mat_def)
  from LSTM_step_forward_gates [OF h(1) h(1) h(2) h(2) h(3) h(4) h(5) h(6) h(7)]
  obtain i_t f_t o_t g_t next_h next_c where
    r: "LSTM_step_forward ?self [[0]] [[0]] [[1]] =
           (next_h, next_c, ([[0]], [[0]], next_h, [[1]], i_t, f_t, next_c, o_t, g_t)) \<and>
        is_mat 1 1 i_t \<and> is_mat 1 1 f_t \<and> is_mat 1 1 o_t \<and> is_mat 1 1 g_t \<and>
        is_mat 1 1 next_c \<and> is_mat 1 1 next_h \<and>
        (\<forall>n<1. \<forall>j<1.
              i_t ! n ! j = sigmoid (lstm_affine ?self 1 1 [[0]] [[0]] n j) \<and>
              f_t ! n ! j = sigmoid (lstm_affine ?self 1 1 [[0]] [[0]] n (1 + j)) \<and>
              o_t ! n ! j = sigmoid (lstm_affine ?self 1 1 [[0]] [[0]] n (2 * 1 + j)) \<and>
              g_t ! n ! j = tanh (lstm_affine ?self 1 1 [[0]] [[0]] n (3 * 1 + j)) \<and>
              next_c ! n ! j = f_t ! n ! j * [[1]] ! n ! j + i_t ! n ! j * g_t ! n ! j \<and>
              next_h ! n ! j = o_t ! n ! j * tanh (next_c ! n ! j)) \<and>
        (\<forall>z. sigmoid z = 1 / (1 + exp (- z)))"
    by (elim exE)
  note run = r [THEN conjunct1]
  note e = r [THEN conjunct2, THEN conjunct2, THEN conjunct2, THEN conjunct2, THEN conjunct2,
      THEN conjunct2, THEN conjunct2, THEN conjunct1]
  have a: "lstm_affine ?self 1 1 [[0]] [[0]] 0 0 = 0"
    "lstm_affine ?self 1 1 [[0]] [[0]] 0 (1 + 0) = 0"
    "lstm_affine ?self 1 1 [[0]] [[0]] 0 (2 * 1 + 0) = 0"
    "lstm_affine ?self 1 1 [[0]] [[0]] 0 (3 * 1 + 0) = 0"
    by (simp_all add: lstm_affine_def)
  have s0: "sigmoid 0 = 1 / 2" by (simp add: sigmoid_def)
  have z: "(0::nat) < 1" by simp
  note E = e [rule_format, OF z z, unfolded a s0]
  have i: "i_t ! 0 ! 0 = 1 / 2" and f: "f_t ! 0 ! 0 = 1 / 2" and o: "o_t ! 0 ! 0 = 1 / 2"
    and g: "g_t ! 0 ! 0 = tanh 0"
    and c: "next_c ! 0 ! 0 = f_t ! 0 ! 0 * [[1]] ! 0 ! 0 + i_t ! 0 ! 0 * g_t ! 0 ! 0"
    and hh: "next_h ! 0 ! 0 = o_t ! 0 ! 0 * tanh (next_c ! 0 ! 0)"
    using E by blast+
  have c': "next_c ! 0 ! 0 = 1 / 2"
    unfolding c i f g by simp
  have "next_h ! 0 ! 0 = tanh (1 / 2) / 2"
    unfolding hh o c' by simp
  then show ?thesis using run c' by blast
qed

section \<open>Backpropagation through time in the vanilla RNN\<close>

lemma step_backward_shapes:
  assumes "0 < N" "0 < D" "0 < H" "is_mat D H (rnn_wx self)" "is_mat H H (rnn_wh self)"
    and "is_mat N D x" "is_mat N H prev_h" "is_mat N H next_h" "is_mat N H g"
  shows "is_mat N D (sb_dx (step_backward self g (x, prev_h, next_h)))"
    and "is_mat N H (sb_dprev_h (step_backward self g (x, prev_h, next_h)))"
    and "is_mat D H (sb_dWx (step_backward self g (x, prev_h, next_h)))"
    and "is_mat H H (sb_dWh (step_backward self g (x, prev_h, next_h)))"
    and "length (sb_db (step_backward self g (x, prev_h, next_h))) = H"
proof -
  let ?dtanh = "mat_mul g (map (map (\<lambda>h. 1 - h\<^sup>2)) next_h)"
  have dt: "is_mat N H ?dtanh"
    using assms(9) map_map_is_mat [OF assms(8)] by (rule mat_mul_is_mat)
  have r: "step_backward self g (x, prev_h, next_h) =
      (dot ?dtanh (mT (rnn_wx self)), dot ?dtanh (mT (rnn_wh self)), dot (mT x) ?dtanh,
       dot (mT prev_h) ?dtanh, col_sum ?dtanh)"
    by (simp add: step_backward_def Let_def)
  show "is_mat N D (sb_dx (step_backward self g (x, prev_h, next_h)))"
    unfolding r sb_dx_def fst_conv
    using dt mT_is_mat [OF assms(4,2)] assms(3) by (rule dot_is_mat)
  show "is_mat N H (sb_dprev_h (step_backward self g (x, prev_h, next_h)))"
    unfolding r sb_dprev_h_def fst_conv snd_conv
    using dt mT_is_mat [OF assms(5,3)] assms(3) by (rule dot_is_mat)
  show "is_mat D H (sb_dWx (step_backward self g (x, prev_h, next_h)))"
    unfolding r sb_dWx_def fst_conv snd_conv
    using mT_is_mat [OF assms(6,1)] dt assms(1) by (rule dot_is_mat)
  show "is_mat H H (sb_dWh (step_backward self g (x, prev_h, next_h)))"
    unfolding r sb_dWh_def fst_conv snd_conv
    using mT_is_mat [OF assms(7,1)] dt assms(1) by (rule dot_is_mat)
  show "length (sb_db (step_backward self g (x, prev_h, next_h))) = H"
    unfolding r sb_db_def snd_conv
    using dt assms(1) by (rule col_sum_length)
qed

lemma rnn_shapes_meta:
  assumes "rnn_shapes self meta N T D H" "i < T"
  shows "\<exists>x prev_h next_h. meta ! i = (x, prev_h, next_h) \<and>
           is_mat N D x \<and> is_mat N H prev_h \<and> is_mat N H next_h"
proof -
  have "i < length meta" using assms by (simp add: rnn_shapes_def)
  moreover have "list_all (\<lambda>(x, prev_h, next_h). is_mat N D x \<and> is_mat N H prev_h \<and>
      is_mat N H next_h) meta"
    using assms(1) by (simp add: rnn_shapes_def)
  ultimately have "(\<lambda>(x, prev_h, next_h). is_mat N D x \<and> is_mat N H prev_h \<and>
      is_mat N H next_h) (meta ! i)"
    by (simp add: list_all_length)
  then show ?thesis by (cases "meta ! i") auto
qed

lemma step_backward_meta_shapes:
  assumes "rnn_shapes self meta N T D H" "i < T" "is_mat N H g"
  shows "is_mat N D (sb_dx (step_backward self g (meta ! i)))"
    and "is_mat N H (sb_dprev_h (step_backward self g (meta ! i)))"
    and "is_mat D H (sb_dWx (step_backward self g (meta ! i)))"
    and "is_mat H H (sb_dWh (step_backward self g (meta ! i)))"
    and "length (sb_db (step_backward self g (meta ! i))) = H"
proof -
  from rnn_shapes_meta [OF assms(1,2)] obtain x prev_h next_h where
    m: "meta ! i = (x, prev_h, next_h)" "is_mat N D x" "is_mat N H prev_h" "is_mat N H next_h"
    by blast
  have p: "0 < N" "0 < D" "0 < H" "is_mat D H (rnn_wx self)" "is_mat H H (rnn_wh self)"
    using assms(1) by (simp_all add: rnn_shapes_def)
  note s = step_backward_shapes [OF p m(2,3,4) assms(3)]
  show "is_mat N D (sb_dx (step_backward self g (meta ! i)))" unfolding m(1) by (rule s)
  show "is_mat N H (sb_dprev_h (step_backward self g (meta ! i)))" unfolding m(1) by (rule s)
  show "is_mat D H (sb_dWx (step_backward self g (meta ! i)))" unfolding m(1) by (rule s)
  show "is_mat H H (sb_dWh (step_backward self g (meta ! i)))" unfolding m(1) by (rule s)
  show "length (sb_db (step_backward self g (meta ! i))) = H" unfolding m(1) by (rule s)
qed

lemma incoming_grad_last: "0 < T \<Longrightarrow> incoming_grad self dh meta T (T - 1) = slice_time dh (T - 1)"
  by (simp add: incoming_grad_def)

lemma incoming_grad_step:
  assumes "Suc i < T"
  shows "incoming_grad self dh meta T i =
           mat_add (sb_dprev_h (step_backward self (incoming_grad self dh meta T (Suc i))
                      (meta ! Suc i)))
             (slice_time dh i)"
proof -
  obtain k where k: "T - 1 - i = Suc k" using assms by (cases "T - 1 - i") auto
  then have e: "T - 1 - Suc i = k" "T - 1 - k = Suc i" "T - 1 - Suc k = i"
    using assms by auto
  have "incoming_grad self dh meta T i = incoming self dh meta T (Suc k)"
    unfolding incoming_grad_def k ..
  also have "\<dots> = mat_add (sb_dprev_h (step_backward self (incoming self dh meta T k)
                      (meta ! (T - 1 - k))))
             (slice_time dh (T - 1 - Suc k))"
    by (rule incoming.simps)
  finally show ?thesis
    unfolding incoming_grad_def e .
qed

lemma incoming_grad_shape:
  assumes "rnn_shapes self meta N T D H" "is_tensor3 N T H dh" "i < T"
  shows "is_mat N H (incoming_grad self dh meta T i)"
proof -
  have T: "0 < T" using assms(1) by (simp add: rnn_shapes_def)
  have "k < T \<Longrightarrow> is_mat N H (incoming self dh meta T k)" for k
  proof (induction k)
    case 0
    show ?case using slice_time_is_mat [OF assms(2), of "T - 1"] T by simp
  next
    case (Suc k)
    then have ih: "is_mat N H (incoming self dh meta T k)" by simp
    have a: "T - 1 - k < T" and b: "T - 1 - Suc k < T" using T by simp_all
    show ?case
      unfolding incoming.simps
      using step_backward_meta_shapes(2) [OF assms(1) a ih] slice_time_is_mat [OF assms(2) b]
      by (rule mat_add_is_mat)
  qed
  moreover have "T - 1 - i < T" using T by simp
  ultimately show ?thesis by (simp add: incoming_grad_def)
qed

lemma slice_set_same:
  assumes "is_tensor3 n t d x" "is_mat n d v" "i < t"
  shows "slice_time (set_time x i v) i = v"
proof (rule nth_equalityI)
  show "length (slice_time (set_time x i v) i) = length v"
    using assms by (simp add: slice_time_def set_time_def is_tensor3_length is_mat_length)
next
  fix k assume "k < length (slice_time (set_time x i v) i)"
  then have k: "k < n"
    using assms by (simp add: slice_time_def set_time_def is_tensor3_length is_mat_length)
  have "length (x ! k) = t" using is_tensor3_nth [OF assms(1) k] by (rule is_mat_length)
  then show "slice_time (set_time x i v) i ! k = v ! k"
    using slice_time_nth [OF set_time_is_tensor3 [OF assms] k]
      set_time_nth [OF assms(1,2) k] assms(3)
    by simp
qed

lemma slice_set_other:
  assumes "is_tensor3 n t d x" "is_mat n d v" "i < t" "j \<noteq> i"
  shows "slice_time (set_time x i v) j = slice_time x j"
proof (rule nth_equalityI)
  show "length (slice_time (set_time x i v) j) = length (slice_time x j)"
    using assms by (simp add: slice_time_def set_time_def is_tensor3_length is_mat_length)
next
  fix k assume "k < length (slice_time (set_time x i v) j)"
  then have k: "k < n"
    using assms by (simp add: slice_time_def set_time_def is_tensor3_length is_mat_length)
  show "slice_time (set_time x i v) j ! k = slice_time x j ! k"
    using slice_time_nth [OF set_time_is_tensor3 [OF assms(1,2,3)] k]
      slice_time_nth [OF assms(1) k] set_time_nth [OF assms(1,2) k] assms(4)
    by simp
qed

lemma vec_add_nth: "length u = n \<Longrightarrow> length v = n \<Longrightarrow> i < n \<Longrightarrow> vec_add u v ! i = u ! i + v ! i"
  by (simp add: vec_add_def)

lemma vec_add_length: "length u = n \<Longrightarrow> length v = n \<Longrightarrow> length (vec_add u v) = n"
  by (simp add: vec_add_def)

lemma backward_body_result:
  assumes "i < length meta"
  shows "backward_body self dh meta i st =
     Inr (st\<lparr>b_dx := set_time (b_dx st) i (sb_dx (step_backward self (b_dnext_h st) (meta ! i))),
             b_dh0 := (if i = 0 then sb_dprev_h (step_backward self (b_dnext_h st) (meta ! i))
                       else b_dh0 st),
             b_dnext_h := (if i = 0 then b_dnext_h st
                           else mat_add (sb_dprev_h (step_backward self (b_dnext_h st) (meta ! i)))
                                  (slice_time dh (i - 1))),
             b_grad_wx := mat_add (b_grad_wx st)
                            (sb_dWx (step_backward self (b_dnext_h st) (meta ! i))),
             b_grad_wh := mat_add (b_grad_wh st)
                            (sb_dWh (step_backward self (b_dnext_h st) (meta ! i))),
             b_grad_b := vec_add (b_grad_b st)
                            (sb_db (step_backward self (b_dnext_h st) (meta ! i)))\<rparr>)"
proof -
  obtain dxi dhi dWxi dWhi dbi where
    r: "step_backward self (b_dnext_h st) (meta ! i) = (dxi, dhi, dWxi, dWhi, dbi)"
    by (metis prod_cases5)
  show ?thesis
    using assms r
    by (cases "i = 0")
      (auto simp: backward_body_def Let_def sb_dx_def sb_dprev_h_def sb_dWx_def sb_dWh_def
        sb_db_def)
qed

lemma backward_loop_inv:
  fixes self :: VanillaRNN and dh :: tensor3 and meta :: "rnn_meta list" and T :: nat and R
  defines "R \<equiv> \<lambda>i. step_backward self (incoming_grad self dh meta T i) (meta ! i)"
  assumes "rnn_shapes self meta N T D H" and "is_tensor3 N T H dh"
    and "k \<le> T" and "is_tensor3 N T D (b_dx st)" and "is_mat D H (b_grad_wx st)"
    and "is_mat H H (b_grad_wh st)" and "length (b_grad_b st) = H"
    and "0 < k \<Longrightarrow> b_dnext_h st = incoming_grad self dh meta T (k - 1)"
  shows "\<exists>st'. backward_loop self dh meta k st = Inr st' \<and>
           is_tensor3 N T D (b_dx st') \<and>
           (\<forall>i<k. slice_time (b_dx st') i = sb_dx (R i)) \<and>
           (\<forall>i. k \<le> i \<longrightarrow> slice_time (b_dx st') i = slice_time (b_dx st) i) \<and>
           b_dh0 st' = (if 0 < k then sb_dprev_h (R 0) else b_dh0 st) \<and>
           is_mat D H (b_grad_wx st') \<and> is_mat H H (b_grad_wh st') \<and>
           length (b_grad_b st') = H \<and>
           (\<forall>d<D. \<forall>h<H. b_grad_wx st' ! d ! h =
                b_grad_wx st ! d ! h + (\<Sum>i<k. sb_dWx (R i) ! d ! h)) \<and>
           (\<forall>d<H. \<forall>h<H. b_grad_wh st' ! d ! h =
                b_grad_wh st ! d ! h + (\<Sum>i<k. sb_dWh (R i) ! d ! h)) \<and>
           (\<forall>h<H. b_grad_b st' ! h = b_grad_b st ! h + (\<Sum>i<k. sb_db (R i) ! h))"
  using assms(4-)
proof (induction k arbitrary: st)
  case 0
  then show ?case by simp
next
  case (Suc k)
  note sh = assms(2,3)
  have kT: "k < T" using Suc.prems(1) by simp
  have km: "k < length meta" using kT sh(1) by (simp add: rnn_shapes_def)
  have g: "b_dnext_h st = incoming_grad self dh meta T k" using Suc.prems(6) by simp
  have Rk: "step_backward self (b_dnext_h st) (meta ! k) = R k" by (simp add: R_def g)
  have gm: "is_mat N H (incoming_grad self dh meta T k)"
    using sh kT by (rule incoming_grad_shape)
  have s1: "is_mat N D (sb_dx (R k))" and s2: "is_mat N H (sb_dprev_h (R k))"
    and s3: "is_mat D H (sb_dWx (R k))" and s4: "is_mat H H (sb_dWh (R k))"
    and s5: "length (sb_db (R k)) = H"
    unfolding R_def using step_backward_meta_shapes [OF sh(1) kT gm] by blast+
  define st3 where "st3 = st\<lparr>b_dx := set_time (b_dx st) k (sb_dx (R k)),
             b_dh0 := (if k = 0 then sb_dprev_h (R k) else b_dh0 st),
             b_dnext_h := (if k = 0 then b_dnext_h st
                           else mat_add (sb_dprev_h (R k)) (slice_time dh (k - 1))),
             b_grad_wx := mat_add (b_grad_wx st) (sb_dWx (R k)),
             b_grad_wh := mat_add (b_grad_wh st) (sb_dWh (R k)),
             b_grad_b := vec_add (b_grad_b st) (sb_db (R k))\<rparr>"
  have body: "backward_body self dh meta k st = Inr st3"
    unfolding st3_def Rk [symmetric] using km by (rule backward_body_result)
  have step: "backward_loop self dh meta (Suc k) st = backward_loop self dh meta k st3"
    by (simp add: body)
  have p1: "is_tensor3 N T D (b_dx st3)"
    using set_time_is_tensor3 [OF Suc.prems(2) s1 kT] by (simp add: st3_def)
  have p2: "is_mat D H (b_grad_wx st3)"
    using mat_add_is_mat [OF Suc.prems(3) s3] by (simp add: st3_def)
  have p3: "is_mat H H (b_grad_wh st3)"
    using mat_add_is_mat [OF Suc.prems(4) s4] by (simp add: st3_def)
  have p4: "length (b_grad_b st3) = H"
    using vec_add_length [OF Suc.prems(5) s5] by (simp add: st3_def)
  have p5: "b_dnext_h st3 = incoming_grad self dh meta T (k - 1)" if "0 < k"
  proof -
    have "Suc (k - 1) < T" using that kT by simp
    from incoming_grad_step [OF this, of self dh meta] that
    show ?thesis by (simp add: st3_def R_def)
  qed
  have kle: "k \<le> T" using kT by simp
  from Suc.IH [OF kle p1 p2 p3 p4 p5] obtain st' where
    r: "backward_loop self dh meta k st3 = Inr st'"
    and q1: "is_tensor3 N T D (b_dx st')"
    and q2: "\<forall>i<k. slice_time (b_dx st') i = sb_dx (R i)"
    and q3: "\<forall>i. k \<le> i \<longrightarrow> slice_time (b_dx st') i = slice_time (b_dx st3) i"
    and q4: "b_dh0 st' = (if 0 < k then sb_dprev_h (R 0) else b_dh0 st3)"
    and q5: "is_mat D H (b_grad_wx st')" "is_mat H H (b_grad_wh st')"
      "length (b_grad_b st') = H"
    and q6: "\<forall>d<D. \<forall>h<H. b_grad_wx st' ! d ! h =
                b_grad_wx st3 ! d ! h + (\<Sum>i<k. sb_dWx (R i) ! d ! h)"
    and q7: "\<forall>d<H. \<forall>h<H. b_grad_wh st' ! d ! h =
                b_grad_wh st3 ! d ! h + (\<Sum>i<k. sb_dWh (R i) ! d ! h)"
    and q8: "\<forall>h<H. b_grad_b st' ! h = b_grad_b st3 ! h + (\<Sum>i<k. sb_db (R i) ! h)"
    by blast
  have c1: "backward_loop self dh meta (Suc k) st = Inr st'"
    using step r by simp
  have c2: "\<forall>i<Suc k. slice_time (b_dx st') i = sb_dx (R i)"
  proof (intro allI impI)
    fix i assume "i < Suc k"
    then consider "i < k" | "i = k" by linarith
    then show "slice_time (b_dx st') i = sb_dx (R i)"
    proof cases
      case 1
      then show ?thesis using q2 by simp
    next
      case 2
      have "slice_time (b_dx st') k = slice_time (b_dx st3) k" using q3 by simp
      also have "\<dots> = sb_dx (R k)"
        using slice_set_same [OF Suc.prems(2) s1 kT] by (simp add: st3_def)
      finally show ?thesis using 2 by simp
    qed
  qed
  have c3: "\<forall>i. Suc k \<le> i \<longrightarrow> slice_time (b_dx st') i = slice_time (b_dx st) i"
  proof (intro allI impI)
    fix i assume i: "Suc k \<le> i"
    then have "slice_time (b_dx st') i = slice_time (b_dx st3) i" using q3 by simp
    also have "\<dots> = slice_time (b_dx st) i"
      using slice_set_other [OF Suc.prems(2) s1 kT, of i] i by (simp add: st3_def)
    finally show "slice_time (b_dx st') i = slice_time (b_dx st) i" .
  qed
  have c4: "b_dh0 st' = (if 0 < Suc k then sb_dprev_h (R 0) else b_dh0 st)"
    using q4 by (cases k) (simp_all add: st3_def)
  have c6: "\<forall>d<D. \<forall>h<H. b_grad_wx st' ! d ! h =
                b_grad_wx st ! d ! h + (\<Sum>i<Suc k. sb_dWx (R i) ! d ! h)"
  proof (intro allI impI)
    fix d h assume dh: "d < D" "h < H"
    have "b_grad_wx st3 ! d ! h = b_grad_wx st ! d ! h + sb_dWx (R k) ! d ! h"
      using mat_add_nth [OF Suc.prems(3) s3 dh] by (simp add: st3_def)
    then show "b_grad_wx st' ! d ! h =
                b_grad_wx st ! d ! h + (\<Sum>i<Suc k. sb_dWx (R i) ! d ! h)"
      using q6 dh by simp
  qed
  have c7: "\<forall>d<H. \<forall>h<H. b_grad_wh st' ! d ! h =
                b_grad_wh st ! d ! h + (\<Sum>i<Suc k. sb_dWh (R i) ! d ! h)"
  proof (intro allI impI)
    fix d h assume dh: "d < H" "h < H"
    have "b_grad_wh st3 ! d ! h = b_grad_wh st ! d ! h + sb_dWh (R k) ! d ! h"
      using mat_add_nth [OF Suc.prems(4) s4 dh] by (simp add: st3_def)
    then show "b_grad_wh st' ! d ! h =
                b_grad_wh st ! d ! h + (\<Sum>i<Suc k. sb_dWh (R i) ! d ! h)"
      using q7 dh by simp
  qed
  have c8: "\<forall>h<H. b_grad_b st' ! h = b_grad_b st ! h + (\<Sum>i<Suc k. sb_db (R i) ! h)"
  proof (intro allI impI)
    fix h assume h: "h < H"
    have "b_grad_b st3 ! h = b_grad_b st ! h + sb_db (R k) ! h"
      using vec_add_nth [OF Suc.prems(5) s5 h] by (simp add: st3_def)
    then show "b_grad_b st' ! h = b_grad_b st ! h + (\<Sum>i<Suc k. sb_db (R i) ! h)"
      using q8 h by simp
  qed
  show ?case
    by (intro exI [of _ st'] conjI c1 q1 c2 c3 c4 q5 c6 c7 c8)
qed

lemma step_forward_result:
  assumes "0 < N" "0 < D" "0 < H" "is_mat D H (rnn_wx self)" "is_mat H H (rnn_wh self)"
    and "length (rnn_b self) = H" "input_dim self = D"
    and "is_mat N D xi" "is_mat N H prev_h"
  shows "\<exists>next_h. step_forward self xi prev_h = Inr (next_h, (xi, prev_h, next_h)) \<and>
           is_mat N H next_h"
proof -
  have d: "dim1 xi = D" using assms(8,1) by (rule is_mat_dim1)
  have a: "is_mat N H (dot xi (rnn_wx self))" using assms(8,4,2) by (rule dot_is_mat)
  have b: "is_mat N H (dot prev_h (rnn_wh self))" using assms(9,5,3) by (rule dot_is_mat)
  have "is_mat N H (add_row_vec (mat_add (dot xi (rnn_wx self)) (dot prev_h (rnn_wh self)))
                      (rnn_b self))"
    using mat_add_is_mat [OF a b] assms(6) by (rule add_row_vec_is_mat)
  then have "is_mat N H (map (map tanh)
      (add_row_vec (mat_add (dot xi (rnn_wx self)) (dot prev_h (rnn_wh self))) (rnn_b self)))"
    by (rule map_map_is_mat)
  then show ?thesis
    by (simp add: step_forward_def d assms(7) Let_def)
qed

lemma forward_loop_shapes:
  assumes "0 < N" "0 < D" "0 < H" "is_mat D H (rnn_wx self)" "is_mat H H (rnn_wh self)"
    and "length (rnn_b self) = H" "input_dim self = D" "is_tensor3 N T D x"
  shows "0 < k \<Longrightarrow> k \<le> T \<Longrightarrow> n = T - k \<Longrightarrow> is_tensor3 N T H h \<Longrightarrow> length meta = k \<Longrightarrow>
     list_all (\<lambda>(x, prev_h, next_h). is_mat N D x \<and> is_mat N H prev_h \<and> is_mat N H next_h)
       meta \<Longrightarrow>
     \<exists>h' meta'. forward_loop self x [k..<T] (h, meta) = Inr (h', meta') \<and>
        is_tensor3 N T H h' \<and> length meta' = T \<and>
        list_all (\<lambda>(x, prev_h, next_h). is_mat N D x \<and> is_mat N H prev_h \<and> is_mat N H next_h)
          meta'"
proof (induction n arbitrary: k h meta)
  case 0
  then have "[k..<T] = []" by simp
  then show ?case using 0 by simp
next
  case (Suc n)
  have kT: "k < T" using Suc.prems(3) by simp
  have u: "[k..<T] = k # [Suc k..<T]" using kT by (rule upt_conv_Cons)
  have xi: "is_mat N D (slice_time x k)" using assms(8) kT by (rule slice_time_is_mat)
  have "k - 1 < T" using kT by simp
  then have pv: "is_mat N H (slice_time h (k - 1))"
    using Suc.prems(4) by (intro slice_time_is_mat)
  from step_forward_result [OF assms(1-7) xi pv] obtain hi where
    hi: "step_forward self (slice_time x k) (slice_time h (k - 1)) =
           Inr (hi, (slice_time x k, slice_time h (k - 1), hi))" "is_mat N H hi"
    by blast
  have h1: "is_tensor3 N T H (set_time h k hi)"
    using Suc.prems(4) hi(2) kT by (rule set_time_is_tensor3)
  have m1: "length (meta @ [(slice_time x k, slice_time h (k - 1), hi)]) = Suc k"
    using Suc.prems(5) by simp
  have m2: "list_all (\<lambda>(x, prev_h, next_h). is_mat N D x \<and> is_mat N H prev_h \<and>
      is_mat N H next_h) (meta @ [(slice_time x k, slice_time h (k - 1), hi)])"
    using Suc.prems(6) xi pv hi(2) by simp
  have n: "n = T - Suc k" using Suc.prems(3) by simp
  from Suc.IH [OF _ _ n h1 m1 m2] kT
  obtain h' meta' where
    "forward_loop self x [Suc k..<T]
       (set_time h k hi, meta @ [(slice_time x k, slice_time h (k - 1), hi)]) = Inr (h', meta')"
    "is_tensor3 N T H h'" "length meta' = T"
    "list_all (\<lambda>(x, prev_h, next_h). is_mat N D x \<and> is_mat N H prev_h \<and> is_mat N H next_h)
       meta'"
    by auto
  then show ?case
    unfolding u using hi(1) by simp
qed

lemma forward_meta_shapes:
  assumes "0 < N" "0 < T" "0 < D" "0 < H" "is_mat D H (rnn_wx self)" "is_mat H H (rnn_wh self)"
    and "length (rnn_b self) = H" "input_dim self = D" "is_tensor3 N T D x" "is_mat N H h0"
  shows "\<exists>h meta. forward self x h0 = Inr (h, self\<lparr>rnn_meta := Some meta\<rparr>) \<and>
           is_tensor3 N T H h \<and> length meta = T \<and>
           list_all (\<lambda>(x, prev_h, next_h). is_mat N D x \<and> is_mat N H prev_h \<and>
             is_mat N H next_h) meta"
proof -
  have N: "length x = N" using assms(9) by (rule is_tensor3_length)
  have T: "dim1 x = T" using is_tensor3_dim1 [OF assms(9,1)] .
  have H: "dim1 h0 = H" using assms(10,1) by (rule is_mat_dim1)
  have x0: "is_mat N D (slice_time x 0)" using assms(9,2) by (rule slice_time_is_mat)
  from step_forward_result [OF assms(1,3,4,5,6,7,8) x0 assms(10)] obtain h_0 where
    s0: "step_forward self (slice_time x 0) h0 = Inr (h_0, (slice_time x 0, h0, h_0))"
      "is_mat N H h_0"
    by blast
  have z: "is_tensor3 N T H (set_time (zeros3 N T H) 0 h_0)"
    using zeros3_is_tensor3 s0(2) assms(2) by (rule set_time_is_tensor3)
  have m: "length [(slice_time x 0, h0, h_0)] = 1"
    "list_all (\<lambda>(x, prev_h, next_h). is_mat N D x \<and> is_mat N H prev_h \<and> is_mat N H next_h)
       [(slice_time x 0, h0, h_0)]"
    using x0 assms(10) s0(2) by simp_all
  have k: "(0::nat) < 1" "1 \<le> T" using assms(2) by simp_all
  from forward_loop_shapes [OF assms(1,3,4,5,6,7,8,9) k refl z m]
  obtain h' meta' where
    l: "forward_loop self x [1..<T] (set_time (zeros3 N T H) 0 h_0, [(slice_time x 0, h0, h_0)])
          = Inr (h', meta')"
    and r: "is_tensor3 N T H h'" "length meta' = T"
      "list_all (\<lambda>(x, prev_h, next_h). is_mat N D x \<and> is_mat N H prev_h \<and> is_mat N H next_h)
         meta'"
    by blast
  have "forward self x h0 = Inr (h', self\<lparr>rnn_meta := Some meta'\<rparr>)"
    using assms(2) l s0(1) by (simp add: forward_def N T H Let_def)
  then show ?thesis using r by blast
qed

lemma backward_loop_order:
  "backward_loop self dh meta k st = run_timesteps self dh meta (rev [0..<k]) st"
  by (induction k arbitrary: st) (simp_all split: sum.splits)

lemma zeros1_nth: "h < n \<Longrightarrow> zeros1 n ! h = 0"
  by (simp add: zeros1_def)

lemma backward_on_meta:
  assumes "0 < N" and "0 < T" and "0 < D" and "0 < H"
    and "is_tensor3 N T H dh"
    and "is_mat D H (rnn_wx self)" and "is_mat H H (rnn_wh self)"
    and "rnn_meta self = Some meta" and "length meta = T"
    and "list_all (\<lambda>(x, prev_h, next_h). is_mat N D x \<and> is_mat N H prev_h \<and>
           is_mat N H next_h) meta"
  shows "\<exists>dx dh0 self' gwx gwh gb.
           backward self dh = Inr ((dx, dh0), self') \<and>
           (\<forall>st. backward_loop self dh meta T st =
                   run_timesteps self dh meta (rev [0..<T]) st) \<and>
           incoming_grad self dh meta T (T - 1) = slice_time dh (T - 1) \<and>
           (\<forall>i. Suc i < T \<longrightarrow>
              incoming_grad self dh meta T i =
                mat_add (sb_dprev_h (step_backward self (incoming_grad self dh meta T (Suc i))
                           (meta ! Suc i)))
                  (slice_time dh i)) \<and>
           is_tensor3 N T D dx \<and>
           (\<forall>i<T. slice_time dx i =
                     sb_dx (step_backward self (incoming_grad self dh meta T i) (meta ! i))) \<and>
           dh0 = sb_dprev_h (step_backward self (incoming_grad self dh meta T 0) (meta ! 0)) \<and>
           rnn_grad_wx self' = Some gwx \<and> rnn_grad_wh self' = Some gwh \<and>
           rnn_grad_b self' = Some gb \<and>
           is_mat D H gwx \<and> is_mat H H gwh \<and> length gb = H \<and>
           (\<forall>d<D. \<forall>h<H. gwx ! d ! h =
              (\<Sum>i<T. sb_dWx (step_backward self (incoming_grad self dh meta T i) (meta ! i))
                         ! d ! h)) \<and>
           (\<forall>d<H. \<forall>h<H. gwh ! d ! h =
              (\<Sum>i<T. sb_dWh (step_backward self (incoming_grad self dh meta T i) (meta ! i))
                         ! d ! h)) \<and>
           (\<forall>h<H. gb ! h =
              (\<Sum>i<T. sb_db (step_backward self (incoming_grad self dh meta T i) (meta ! i))
                         ! h)) \<and>
           rnn_meta self' = Some []"
proof -
  let ?R = "\<lambda>i. step_backward self (incoming_grad self dh meta T i) (meta ! i)"
  have sh: "rnn_shapes self meta N T D H"
    using assms(1-4,6,7,9,10) by (simp add: rnn_shapes_def)
  have N: "length dh = N" using assms(5) by (rule is_tensor3_length)
  have T: "dim1 dh = T" using is_tensor3_dim1 [OF assms(5,1)] .
  have H: "dim2 dh = H" using is_tensor3_dim2 [OF assms(5,1,2)] .
  obtain x0 p0 n0 rest where m: "meta = (x0, p0, n0) # rest"
    using assms(2,9) by (cases meta) auto
  have "is_mat N D x0" using assms(10) by (simp add: m)
  then have D: "dim1 x0 = D" using assms(1) by (rule is_mat_dim1)
  define st0 where "st0 = \<lparr>b_dx = zeros3 N T D, b_dh0 = zeros N H,
                           b_grad_wx = zeros D H, b_grad_wh = zeros H H, b_grad_b = zeros1 H,
                           b_dnext_h = slice_time dh (T - 1)\<rparr>"
  have i1: "is_tensor3 N T D (b_dx st0)" by (simp add: st0_def zeros3_is_tensor3)
  have i2: "is_mat D H (b_grad_wx st0)" by (simp add: st0_def zeros_is_mat)
  have i3: "is_mat H H (b_grad_wh st0)" by (simp add: st0_def zeros_is_mat)
  have i4: "length (b_grad_b st0) = H" by (simp add: st0_def zeros1_def)
  have i5: "0 < T \<Longrightarrow> b_dnext_h st0 = incoming_grad self dh meta T (T - 1)"
    using incoming_grad_last [of T self dh meta] by (simp add: st0_def)
  from backward_loop_inv [OF sh assms(5) order_refl i1 i2 i3 i4 i5] obtain st' where
    r: "backward_loop self dh meta T st0 = Inr st'"
    and q1: "is_tensor3 N T D (b_dx st')"
    and q2: "\<forall>i<T. slice_time (b_dx st') i = sb_dx (?R i)"
    and q4: "b_dh0 st' = (if 0 < T then sb_dprev_h (?R 0) else b_dh0 st0)"
    and q5: "is_mat D H (b_grad_wx st')" "is_mat H H (b_grad_wh st')"
      "length (b_grad_b st') = H"
    and q6: "\<forall>d<D. \<forall>h<H. b_grad_wx st' ! d ! h =
                b_grad_wx st0 ! d ! h + (\<Sum>i<T. sb_dWx (?R i) ! d ! h)"
    and q7: "\<forall>d<H. \<forall>h<H. b_grad_wh st' ! d ! h =
                b_grad_wh st0 ! d ! h + (\<Sum>i<T. sb_dWh (?R i) ! d ! h)"
    and q8: "\<forall>h<H. b_grad_b st' ! h = b_grad_b st0 ! h + (\<Sum>i<T. sb_db (?R i) ! h)"
    by blast
  define self' where "self' = self\<lparr>rnn_grad_wx := Some (b_grad_wx st'),
                                 rnn_grad_wh := Some (b_grad_wh st'),
                                 rnn_grad_b := Some (b_grad_b st'),
                                 rnn_meta := Some []\<rparr>"
  have c1: "backward self dh = Inr ((b_dx st', b_dh0 st'), self')"
    using r [unfolded st0_def] assms(2)
    by (simp add: backward_def assms(8) m N T H D Let_def self'_def)
  have c2: "\<forall>st. backward_loop self dh meta T st = run_timesteps self dh meta (rev [0..<T]) st"
    by (intro allI backward_loop_order)
  have c3: "incoming_grad self dh meta T (T - 1) = slice_time dh (T - 1)"
    using assms(2) by (rule incoming_grad_last)
  have c4: "\<forall>i. Suc i < T \<longrightarrow>
              incoming_grad self dh meta T i =
                mat_add (sb_dprev_h (step_backward self (incoming_grad self dh meta T (Suc i))
                           (meta ! Suc i)))
                  (slice_time dh i)"
    by (intro allI impI incoming_grad_step)
  have c5: "b_dh0 st' = sb_dprev_h (?R 0)" using q4 assms(2) by simp
  have c6: "\<forall>d<D. \<forall>h<H. b_grad_wx st' ! d ! h = (\<Sum>i<T. sb_dWx (?R i) ! d ! h)"
    using q6 by (simp add: st0_def zeros_nth)
  have c7: "\<forall>d<H. \<forall>h<H. b_grad_wh st' ! d ! h = (\<Sum>i<T. sb_dWh (?R i) ! d ! h)"
    using q7 by (simp add: st0_def zeros_nth)
  have c8: "\<forall>h<H. b_grad_b st' ! h = (\<Sum>i<T. sb_db (?R i) ! h)"
    using q8 by (simp add: st0_def zeros1_nth)
  have g: "rnn_grad_wx self' = Some (b_grad_wx st')" "rnn_grad_wh self' = Some (b_grad_wh st')"
    "rnn_grad_b self' = Some (b_grad_b st')" "rnn_meta self' = Some []"
    by (simp_all add: self'_def)
  show ?thesis
    by (intro exI [of _ "b_dx st'"] exI [of _ "b_dh0 st'"] exI [of _ self']
        exI [of _ "b_grad_wx st'"] exI [of _ "b_grad_wh st'"] exI [of _ "b_grad_b st'"]
        conjI c1 c2 c3 c4 q1 q2 c5 g q5 c6 c7 c8)
qed

text \<open>
  C5. After a forward pass over \<open>T\<close> timesteps (\<open>x\<close> of shape \<open>(N, T, D)\<close>, \<open>h0\<close> of shape
  \<open>(N, H)\<close>), \<open>backward\<close> on \<open>dh\<close> of shape \<open>(N, T, H)\<close> runs the loop body on the
  timesteps \<open>T - 1, \<dots>, 0\<close> in this order. The gradient passed to \<open>step_backward\<close> at
  the last timestep is \<open>dh[:, T - 1, :]\<close>, at an earlier timestep the recurrent gradient
  of the next timestep plus \<open>dh\<close> at this one. The call returns \<open>dx\<close> of shape
  \<open>(N, T, D)\<close>, whose slice at a timestep is that step's input gradient, and \<open>dh0\<close>,
  the recurrent gradient of timestep 0; it stores as \<open>dWx\<close>, \<open>dWh\<close>, \<open>db\<close> the sums over
  all timesteps of the per-timestep gradients, and empties the meta.
\<close>

theorem backward_reverse_accumulation:
  assumes "0 < N" and "0 < T" and "0 < D" and "0 < H"
    and "is_mat D H (rnn_wx self0)" and "is_mat H H (rnn_wh self0)"
    and "length (rnn_b self0) = H" and "input_dim self0 = D"
    and "is_tensor3 N T D x" and "is_mat N H h0"
    and "forward self0 x h0 = Inr (h, self)"
    and "is_tensor3 N T H dh"
  shows "\<exists>meta dx dh0 self' gwx gwh gb.
           rnn_meta self = Some meta \<and> length meta = T \<and>
           backward self dh = Inr ((dx, dh0), self') \<and>
           (\<forall>st. backward_loop self dh meta T st =
                   run_timesteps self dh meta (rev [0..<T]) st) \<and>
           incoming_grad self dh meta T (T - 1) = slice_time dh (T - 1) \<and>
           (\<forall>i. Suc i < T \<longrightarrow>
              incoming_grad self dh meta T i =
                mat_add (sb_dprev_h (step_backward self (incoming_grad self dh meta T (Suc i))
                           (meta ! Suc i)))
                  (slice_time dh i)) \<and>
           is_tensor3 N T D dx \<and>
           (\<forall>i<T. slice_time dx i =
                     sb_dx (step_backward self (incoming_grad self dh meta T i) (meta ! i))) \<and>
           dh0 = sb_dprev_h (step_backward self (incoming_grad self dh meta T 0) (meta ! 0)) \<and>
           rnn_grad_wx self' = Some gwx \<and> rnn_grad_wh self' = Some gwh \<and>
           rnn_grad_b self' = Some gb \<and>
           is_mat D H gwx \<and> is_mat H H gwh \<and> length gb = H \<and>
           (\<forall>d<D. \<forall>h<H. gwx ! d ! h =
              (\<Sum>i<T. sb_dWx (step_backward self (incoming_grad self dh meta T i) (meta ! i))
                         ! d ! h)) \<and>
           (\<forall>d<H. \<forall>h<H. gwh ! d ! h =
              (\<Sum>i<T. sb_dWh (step_backward self (incoming_grad self dh meta T i) (meta ! i))
                         ! d ! h)) \<and>
           (\<forall>h<H. gb ! h =
              (\<Sum>i<T. sb_db (step_backward self (incoming_grad self dh meta T i) (meta ! i))
                         ! h)) \<and>
           rnn_meta self' = Some []"
proof -
  from forward_meta_shapes [OF assms(1-10)] obtain h' meta where
    f: "forward self0 x h0 = Inr (h', self0\<lparr>rnn_meta := Some meta\<rparr>)"
    and len: "length meta = T"
    and ms: "list_all (\<lambda>(x, prev_h, next_h). is_mat N D x \<and> is_mat N H prev_h \<and>
               is_mat N H next_h) meta"
    by blast
  have self: "self = self0\<lparr>rnn_meta := Some meta\<rparr>"
    using f assms(11) by simp
  have m: "rnn_meta self = Some meta" by (simp add: self)
  have wx: "is_mat D H (rnn_wx self)" and wh: "is_mat H H (rnn_wh self)"
    using assms(5,6) by (simp_all add: self)
  note e = backward_on_meta [OF assms(1-4,12) wx wh m len ms]
  show ?thesis
    apply (rule exI [of _ meta])
    apply (simp only: m len simp_thms)
    apply (rule e)
    done
qed

lemma rnn_example_forward:
  "forward rnn_example [[[1], [1]]] [[0]] =
     Inr ([[[0], [0]]],
          rnn_example\<lparr>rnn_meta := Some [([[1]], [[0]], [[0]]), ([[1]], [[0]], [[0]])]\<rparr>)"
proof -
  have u: "[1..<2] = [1::nat]" by (simp add: upt_conv_Cons)
  show ?thesis
    by (simp add: forward_def step_forward_def rnn_example_def dim1_def slice_time_def
        set_time_def zeros3_def zeros_def dot_def mT_def mat_add_def vec_add_def
        add_row_vec_def Let_def u)
qed

text \<open>
  The theorem after the forward pass of \<open>rnn_example\<close> on two timesteps, with
  \<open>dh = [[[1], [2]]]\<close>: the last timestep receives 2, timestep 0 receives
  \<open>2 + 1 = 3\<close>, so \<open>dh0 = [[3]]\<close> and the accumulated \<open>dWx\<close> and \<open>db\<close> are \<open>2 + 3 = 5\<close>.
\<close>

theorem backward_reverse_accumulation_witness:
  "\<exists>self1 dx dh0 self' gwx gb.
     forward rnn_example [[[1], [1]]] [[0]] = Inr ([[[0], [0]]], self1) \<and>
     backward self1 [[[1], [2]]] = Inr ((dx, dh0), self') \<and>
     dh0 = [[3]] \<and>
     rnn_grad_wx self' = Some gwx \<and> gwx ! 0 ! 0 = 5 \<and>
     rnn_grad_b self' = Some gb \<and> gb ! 0 = 5 \<and>
     rnn_meta self' = Some []"
proof -
  let ?meta = "[([[1]], [[0]], [[0]]), ([[1]], [[0]], [[0 :: real]])] :: rnn_meta list"
  let ?dh = "[[[1], [2 :: real]]]"
  define self1 where "self1 = rnn_example\<lparr>rnn_meta := Some ?meta\<rparr>"
  have f: "forward rnn_example [[[1], [1]]] [[0]] = Inr ([[[0], [0]]], self1)"
    unfolding self1_def by (rule rnn_example_forward)
  have h: "0 < (1::nat)" "0 < (2::nat)" "is_mat 1 1 (rnn_wx rnn_example)"
    "is_mat 1 1 (rnn_wh rnn_example)" "length (rnn_b rnn_example) = 1"
    "input_dim rnn_example = 1" "is_tensor3 1 2 1 [[[1], [1 :: real]]]" "is_mat 1 1 [[0 :: real]]"
    "is_tensor3 1 2 1 ?dh"
    by (simp_all add: rnn_example_def is_tensor3_def is_mat_def)
  have two: "{..<2::nat} = {0, 1}" by auto
  have g1: "incoming_grad self1 ?dh ?meta 2 1 = [[2]]"
    by (simp add: incoming_grad_def slice_time_def)
  have r1: "step_backward self1 [[2]] (?meta ! 1) = ([[0]], [[2]], [[2]], [[0]], [2])"
    by (simp add: step_backward_def self1_def rnn_example_def mat_mul_def dot_def mT_def
        dim1_def col_sum_def Let_def)
  have g0: "incoming_grad self1 ?dh ?meta 2 0 = [[3]]"
  proof -
    have "incoming_grad self1 ?dh ?meta 2 0 =
        mat_add (sb_dprev_h (step_backward self1 (incoming_grad self1 ?dh ?meta 2 (Suc 0))
                   (?meta ! Suc 0))) (slice_time ?dh 0)"
      by (rule incoming_grad_step) simp
    then show ?thesis
      using g1 r1 by (simp add: sb_dprev_h_def mat_add_def vec_add_def slice_time_def)
  qed
  have r0: "step_backward self1 [[3]] (?meta ! 0) = ([[0]], [[3]], [[3]], [[0]], [3])"
    by (simp add: step_backward_def self1_def rnn_example_def mat_mul_def dot_def mT_def
        dim1_def col_sum_def Let_def)
  from backward_reverse_accumulation [OF h(1) h(2) h(1) h(1) h(3) h(4) h(5) h(6) h(7) h(8) f h(9)]
  obtain meta dx dh0 self' gwx gwh gb where
    p: "rnn_meta self1 = Some meta \<and> length meta = 2 \<and>
           backward self1 ?dh = Inr ((dx, dh0), self') \<and>
           (\<forall>st. backward_loop self1 ?dh meta 2 st =
                   run_timesteps self1 ?dh meta (rev [0..<2]) st) \<and>
           incoming_grad self1 ?dh meta 2 (2 - 1) = slice_time ?dh (2 - 1) \<and>
           (\<forall>i. Suc i < 2 \<longrightarrow>
              incoming_grad self1 ?dh meta 2 i =
                mat_add (sb_dprev_h (step_backward self1 (incoming_grad self1 ?dh meta 2 (Suc i))
                           (meta ! Suc i)))
                  (slice_time ?dh i)) \<and>
           is_tensor3 1 2 1 dx \<and>
           (\<forall>i<2. slice_time dx i =
                     sb_dx (step_backward self1 (incoming_grad self1 ?dh meta 2 i) (meta ! i))) \<and>
           dh0 = sb_dprev_h (step_backward self1 (incoming_grad self1 ?dh meta 2 0) (meta ! 0)) \<and>
           rnn_grad_wx self' = Some gwx \<and> rnn_grad_wh self' = Some gwh \<and>
           rnn_grad_b self' = Some gb \<and>
           is_mat 1 1 gwx \<and> is_mat 1 1 gwh \<and> length gb = 1 \<and>
           (\<forall>d<1. \<forall>h<1. gwx ! d ! h =
              (\<Sum>i<2. sb_dWx (step_backward self1 (incoming_grad self1 ?dh meta 2 i) (meta ! i))
                         ! d ! h)) \<and>
           (\<forall>d<1. \<forall>h<1. gwh ! d ! h =
              (\<Sum>i<2. sb_dWh (step_backward self1 (incoming_grad self1 ?dh meta 2 i) (meta ! i))
                         ! d ! h)) \<and>
           (\<forall>h<1. gb ! h =
              (\<Sum>i<2. sb_db (step_backward self1 (incoming_grad self1 ?dh meta 2 i) (meta ! i))
                         ! h)) \<and>
           rnn_meta self' = Some []"
    by (elim exE)
  from p have "rnn_meta self1 = Some meta"
    by (elim conjE) assumption
  then have mm: "meta = ?meta" by (simp add: self1_def)
  note p = p [unfolded mm]
  from p have r: "backward self1 ?dh = Inr ((dx, dh0), self')"
    by (elim conjE) assumption
  from p have d0: "dh0 = sb_dprev_h (step_backward self1 (incoming_grad self1 ?dh ?meta 2 0)
                     (?meta ! 0))"
    by (elim conjE) assumption
  from p have gx1: "rnn_grad_wx self' = Some gwx"
    by (elim conjE) assumption
  from p have gx2: "\<forall>d<1. \<forall>h<1. gwx ! d ! h =
         (\<Sum>i<2. sb_dWx (step_backward self1 (incoming_grad self1 ?dh ?meta 2 i) (?meta ! i))
                    ! d ! h)"
    by (elim conjE) assumption
  from p have gb1: "rnn_grad_b self' = Some gb"
    by (elim conjE) assumption
  from p have gb2: "\<forall>h<1. gb ! h =
         (\<Sum>i<2. sb_db (step_backward self1 (incoming_grad self1 ?dh ?meta 2 i) (?meta ! i))
                    ! h)"
    by (elim conjE) assumption
  from p have me: "rnn_meta self' = Some []"
    by (elim conjE) assumption
  have z: "(0::nat) < 1" by simp
  have e0: "dh0 = [[3]]"
    unfolding d0 g0 r0 by (simp add: sb_dprev_h_def)
  have s1: "Suc 0 = 1" by simp
  have e1: "gwx ! 0 ! 0 = 5"
    unfolding gx2 [rule_format, OF z z] two using g0 g1 r0 r1
    by (simp add: sb_dWx_def)
  have e2: "gb ! 0 = 5"
    unfolding gb2 [rule_format, OF z] two using g0 g1 r0 r1
    by (simp add: sb_db_def)
  show ?thesis
    by (intro exI [of _ self1] exI [of _ dx] exI [of _ dh0] exI [of _ self'] exI [of _ gwx]
        exI [of _ gb] conjI f r e0 gx1 e1 gb1 e2 me)
qed

end
